theory Spec2Isabelle
  imports Main
begin

section \<open>JavaScript values and strings\<close>

text \<open>
  The bot is a Node.js program. Its strings are sequences of UTF-16 code units, so a
  string is modelled as the list of its code units: \<open>slice\<close>, \<open>charAt\<close>, \<open>trim\<close>
  and \<open>split\<close> count code units, and the Cyrillic literals of the source are written out
  as the code units they consist of. \<open>asc\<close> embeds an ASCII literal.
\<close>

type_synonym jstring = "nat list"

definition asc :: "string \<Rightarrow> jstring" where
  "asc s = map of_char s"

text \<open>
  A cell of the sheet, and more generally a value read out of an array: a string, a
  number, \<open>null\<close>, or \<open>undefined\<close> (what an index past the end of an array yields).
  \<open>Num\<close> stands for an integer-valued number; fractional numbers are outside the model.
\<close>

datatype jsval = Undefined | Null | Str jstring | Num int

type_synonym row = "jsval list"
type_synonym grid = "row list"

text \<open>An exception, with the text of its \<open>message\<close> property.\<close>

datatype error = TypeError jstring | RangeError jstring | Error jstring

fun message :: "error \<Rightarrow> jstring" where
  "message (TypeError m) = m"
| "message (RangeError m) = m"
| "message (Error m) = m"

section \<open>Primitives of the language\<close>

text \<open>
  Truthiness (\<open>!v\<close>, \<open>v || d\<close>), the nullish test of \<open>v ?? d\<close>, and \<open>String(v)\<close>.
  A number prints in decimal.
\<close>

fun truthy :: "jsval \<Rightarrow> bool" where
  "truthy Undefined = False"
| "truthy Null = False"
| "truthy (Str s) = (s \<noteq> [])"
| "truthy (Num n) = (n \<noteq> 0)"

fun nullish :: "jsval \<Rightarrow> bool" where
  "nullish Undefined = True"
| "nullish Null = True"
| "nullish (Str s) = False"
| "nullish (Num n) = False"

fun showNat :: "nat \<Rightarrow> jstring" where
  "showNat n = (if n < 10 then [48 + n] else showNat (n div 10) @ [48 + n mod 10])"

declare showNat.simps [simp del]

definition showInt :: "int \<Rightarrow> jstring" where
  "showInt n = (if n < 0 then 45 # showNat (nat (- n)) else showNat (nat n))"

fun toStr :: "jsval \<Rightarrow> jstring" where
  "toStr Undefined = asc ''undefined''"
| "toStr Null = asc ''null''"
| "toStr (Str s) = s"
| "toStr (Num n) = showInt n"

text \<open>
  Array reads: \<open>xs[i]\<close> is \<open>undefined\<close> past the end, and \<open>sheet[i] || []\<close> or
  \<open>sheet[i]?.[j]\<close> read a missing row as an empty one.
\<close>

definition cellAt :: "row \<Rightarrow> nat \<Rightarrow> jsval" where
  "cellAt cells j = (if j < length cells then cells ! j else Undefined)"

definition rowAt :: "grid \<Rightarrow> nat \<Rightarrow> row" where
  "rowAt rows i = (if i < length rows then rows ! i else [])"

text \<open>
  \<open>xs.findIndex(p)\<close>: the first index whose element satisfies \<open>p\<close>, \<open>None\<close> for -1.
  In \<open>findIndexE\<close> the callback may throw, which ends the scan.
\<close>

fun findIndex :: "('a \<Rightarrow> bool) \<Rightarrow> 'a list \<Rightarrow> nat option" where
  "findIndex p [] = None"
| "findIndex p (x # xs) = (if p x then Some 0 else map_option Suc (findIndex p xs))"

fun findIndexE :: "('a \<Rightarrow> error + bool) \<Rightarrow> 'a list \<Rightarrow> error + nat option" where
  "findIndexE p [] = Inr None"
| "findIndexE p (x # xs) =
     (case p x of
        Inl e \<Rightarrow> Inl e
      | Inr True \<Rightarrow> Inr (Some 0)
      | Inr False \<Rightarrow>
          (case findIndexE p xs of Inl e \<Rightarrow> Inl e | Inr k \<Rightarrow> Inr (map_option Suc k)))"

text \<open>
  White space as \<open>trim\<close> and the regular expression class \<open>\s\<close> know it: tab, line
  feed, vertical tab, form feed, carriage return, space, no-break space, U+1680,
  U+2000 to U+200A, U+2028, U+2029, U+202F, U+205F, U+3000 and U+FEFF.
\<close>

definition isSpace :: "nat \<Rightarrow> bool" where
  "isSpace u = (u \<in> set [9, 10, 11, 12, 13, 32, 160, 5760, 8232, 8233, 8239, 8287, 12288, 65279]
     \<or> (8192 \<le> u \<and> u \<le> 8202))"

definition trim :: "jstring \<Rightarrow> jstring" where
  "trim s = rev (dropWhile isSpace (rev (dropWhile isSpace s)))"

text \<open>
  \<open>s.split(/\s+/)\<close>: the pieces between the maximal runs of white space. A string that
  starts or ends with white space has an empty first or last piece, and the empty string
  splits into one empty piece.
\<close>

function splitWs :: "jstring \<Rightarrow> jstring list" where
  "splitWs [] = [[]]"
| "splitWs (u # us) =
     (if isSpace u then [] # splitWs (dropWhile isSpace us)
      else (case splitWs us of [] \<Rightarrow> [[u]] | t # ts \<Rightarrow> (u # t) # ts))"
  by pat_completeness auto
termination
  by (relation "measure length") (auto simp: le_imp_less_Suc length_dropWhile_le)

text \<open>\<open>xs.join(sep)\<close>, \<open>s.includes(t)\<close> and \<open>s.startsWith(t)\<close>.\<close>

fun joinWith :: "jstring \<Rightarrow> jstring list \<Rightarrow> jstring" where
  "joinWith sep [] = []"
| "joinWith sep [x] = x"
| "joinWith sep (x # y # ys) = x @ sep @ joinWith sep (y # ys)"

definition startsWith :: "jstring \<Rightarrow> jstring \<Rightarrow> bool" where
  "startsWith s t = (take (length t) s = t)"

definition includesStr :: "jstring \<Rightarrow> jstring \<Rightarrow> bool" where
  "includesStr s t = list_ex (\<lambda>i. startsWith (drop i s) t) [0..<Suc (length s)]"

text \<open>
  The case mappings \<open>toUpperCase\<close> and \<open>toLowerCase\<close> cover all of Unicode and are not
  part of the program; so is the text that a property inherited from
  \<open>Object.prototype\<close> prints as. They are parameters of the model, together with the
  settings the program reads from its environment and the grid service that receives a
  cell write (the address and the value; it answers with the sheet as it is afterwards,
  or fails).
\<close>

record env =
  toUpperCase :: "jstring \<Rightarrow> jstring"
  toLowerCase :: "jstring \<Rightarrow> jstring"
  inheritedText :: "jstring \<Rightarrow> jstring"
  CHAT_ID :: jsval
  allowedUsers :: "int list"
  valuesUpdate :: "jstring \<Rightarrow> jstring \<Rightarrow> grid \<Rightarrow> error + grid"

section \<open>Dates\<close>

text \<open>
  \<open>new Date(ms).toISOString()\<close> is a function of the language, not of the program.
  It is modelled after its definition in the language standard: a time value is a
  number of milliseconds since 1 January 1970 UTC; \<open>Day\<close>, \<open>DayFromYear\<close>,
  \<open>DaysInYear\<close>, \<open>MonthFromTime\<close> and \<open>DateFromTime\<close> are the standard's functions of
  these names (months count from 0). The standard defines \<open>YearFromTime\<close> as the
  largest year whose first day is not after the time value; here it is computed from
  an estimate that is off by at most one, and \<open>YearFromTime_spec\<close> below proves that
  the result is that year. A time value beyond 8.64e15 milliseconds on either side is
  not a date and makes \<open>toISOString\<close> throw a \<open>RangeError\<close>. Years outside 0 to 9999
  print with a sign and six digits.
\<close>

definition msPerDay :: int where
  "msPerDay = 86400000"

definition Day :: "int \<Rightarrow> int" where
  "Day t = t div msPerDay"

definition TimeWithinDay :: "int \<Rightarrow> int" where
  "TimeWithinDay t = t mod msPerDay"

definition DayFromYear :: "int \<Rightarrow> int" where
  "DayFromYear y =
     365 * (y - 1970) + (y - 1969) div 4 - (y - 1901) div 100 + (y - 1601) div 400"

definition DaysInYear :: "int \<Rightarrow> int" where
  "DaysInYear y =
     (if y mod 4 \<noteq> 0 then 365 else if y mod 100 \<noteq> 0 then 366
      else if y mod 400 \<noteq> 0 then 365 else 366)"

definition yearOfDay :: "int \<Rightarrow> int" where
  "yearOfDay d =
     (let y0 = 1970 + (d * 400) div 146097
      in if DayFromYear (y0 + 1) \<le> d then y0 + 1
         else if DayFromYear y0 \<le> d then y0
         else y0 - 1)"

definition YearFromTime :: "int \<Rightarrow> int" where
  "YearFromTime t = yearOfDay (Day t)"

definition DayWithinYear :: "int \<Rightarrow> int" where
  "DayWithinYear t = Day t - DayFromYear (YearFromTime t)"

definition InLeapYear :: "int \<Rightarrow> int" where
  "InLeapYear t = (if DaysInYear (YearFromTime t) = 366 then 1 else 0)"

definition MonthFromTime :: "int \<Rightarrow> int" where
  "MonthFromTime t =
     (let d = DayWithinYear t; l = InLeapYear t
      in if d < 31 then 0 else if d < 59 + l then 1 else if d < 90 + l then 2
         else if d < 120 + l then 3 else if d < 151 + l then 4 else if d < 181 + l then 5
         else if d < 212 + l then 6 else if d < 243 + l then 7 else if d < 273 + l then 8
         else if d < 304 + l then 9 else if d < 334 + l then 10 else 11)"

definition DateFromTime :: "int \<Rightarrow> int" where
  "DateFromTime t =
     (let d = DayWithinYear t; l = InLeapYear t; m = MonthFromTime t
      in if m = 0 then d + 1 else if m = 1 then d - 30 else if m = 2 then d - 58 - l
         else if m = 3 then d - 89 - l else if m = 4 then d - 119 - l
         else if m = 5 then d - 150 - l else if m = 6 then d - 180 - l
         else if m = 7 then d - 211 - l else if m = 8 then d - 242 - l
         else if m = 9 then d - 272 - l else if m = 10 then d - 303 - l
         else d - 333 - l)"

text \<open>A number in decimal, filled with zeros on the left up to a width.\<close>

definition padNum :: "nat \<Rightarrow> int \<Rightarrow> jstring" where
  "padNum w n = (let ds = showNat (nat n) in replicate (w - length ds) 48 @ ds)"

definition isoYear :: "int \<Rightarrow> jstring" where
  "isoYear y =
     (if 0 \<le> y \<and> y \<le> 9999 then padNum 4 y
      else (if y < 0 then 45 else 43) # padNum 6 (abs y))"

definition isoDate :: "int \<Rightarrow> jstring" where
  "isoDate t =
     isoYear (YearFromTime t) @ asc ''-'' @ padNum 2 (MonthFromTime t + 1) @ asc ''-''
       @ padNum 2 (DateFromTime t)"

definition isoTime :: "int \<Rightarrow> jstring" where
  "isoTime t =
     (let ms = TimeWithinDay t
      in padNum 2 (ms div 3600000) @ asc '':'' @ padNum 2 (ms div 60000 mod 60) @ asc '':''
           @ padNum 2 (ms div 1000 mod 60) @ asc ''.'' @ padNum 3 (ms mod 1000))"

definition toISOString :: "int \<Rightarrow> error + jstring" where
  "toISOString t =
     (if t < - 8640000000000000 \<or> 8640000000000000 < t
      then Inl (RangeError (asc ''Invalid time value''))
      else Inr (isoDate t @ asc ''T'' @ isoTime t @ asc ''Z''))"

text \<open>
  \<^verbatim>\<open>
  function normalizeDate(val) {
    if (!val) return null;
    if (typeof val === "string") return val.slice(0, 10);
    if (typeof val === "number") {
      const base = new Date(Date.UTC(1899, 11, 30));
      return new Date(base.getTime() + val * 86400000).toISOString().slice(0, 10);
    }
    if (val instanceof Date) return val.toISOString().slice(0, 10);
    return null;
  }
  \<close>
  The result is a string or \<open>null\<close> (\<open>None\<close>). \<open>Date.UTC(1899, 11, 30)\<close> is the time
  value of 30 December 1899, 25569 days before 1 January 1970. A sheet cell is never a
  \<open>Date\<close> object.
\<close>

definition base :: int where
  "base = - 2209161600000"

fun normalizeDate :: "jsval \<Rightarrow> error + jstring option" where
  "normalizeDate Undefined = Inr None"
| "normalizeDate Null = Inr None"
| "normalizeDate (Str s) = (if s = [] then Inr None else Inr (Some (take 10 s)))"
| "normalizeDate (Num n) =
     (if n = 0 then Inr None
      else (case toISOString (base + n * 86400000) of
              Inl e \<Rightarrow> Inl e
            | Inr s \<Rightarrow> Inr (Some (take 10 s))))"

section \<open>The diff of two snapshots\<close>

text \<open>
  \<^verbatim>\<open>
  function findChanges(oldSheet, newSheet) {
    const changes = [];
    const totalRows = Math.max(oldSheet?.length || 0, newSheet?.length || 0);
    for (let row = 0; row < totalRows; row++) {
      const prevRow = oldSheet?.[row] || [];
      const currRow = newSheet?.[row] || [];
      const totalCols = Math.max(prevRow.length, currRow.length);
      for (let col = 0; col < totalCols; col++) {
        const before = prevRow[col] ?? "";
        const after  = currRow[col] ?? "";
        if (before !== after) {
          changes.push({ r: row + 1, c: col + 1, oldVal: before, newVal: after });
        }
      }
    }
    return changes;
  }
  \<close>
  A sheet may be \<open>null\<close> (\<open>None\<close>), which the optional chaining reads as a sheet
  without rows. On strings and numbers \<open>!==\<close> is inequality of the values, a string
  and a number being always different.
\<close>

record change =
  r :: nat
  c :: nat
  oldVal :: jsval
  newVal :: jsval

definition sheetRows :: "grid option \<Rightarrow> grid" where
  "sheetRows sh = (case sh of None \<Rightarrow> [] | Some rows \<Rightarrow> rows)"

definition orEmpty :: "jsval \<Rightarrow> jsval" where
  "orEmpty v = (if nullish v then Str [] else v)"

definition cellChange :: "nat \<Rightarrow> row \<Rightarrow> row \<Rightarrow> nat \<Rightarrow> change list" where
  "cellChange row prevRow currRow col =
     (let bef = orEmpty (cellAt prevRow col); aft = orEmpty (cellAt currRow col)
      in if bef \<noteq> aft
         then [\<lparr>r = row + 1, c = col + 1, oldVal = bef, newVal = aft\<rparr>]
         else [])"

definition rowChanges :: "grid \<Rightarrow> grid \<Rightarrow> nat \<Rightarrow> change list" where
  "rowChanges oldRows newRows row =
     (let prevRow = rowAt oldRows row; currRow = rowAt newRows row;
          totalCols = max (length prevRow) (length currRow)
      in concat (map (cellChange row prevRow currRow) [0..<totalCols]))"

definition findChanges :: "grid option \<Rightarrow> grid option \<Rightarrow> change list" where
  "findChanges oldSheet newSheet =
     (let oldRows = sheetRows oldSheet; newRows = sheetRows newSheet;
          totalRows = max (length oldRows) (length newRows)
      in concat (map (rowChanges oldRows newRows) [0..<totalRows]))"

text \<open>
  The older \<open>findChanges\<close> of \<open>main.js\<close> differs in one operator: it reads a cell with
  \<open>prevRow[col] || ""\<close>, so that every falsy value, the number 0 too, is read as the
  empty string.
\<close>

definition orEmptyFalsy :: "jsval \<Rightarrow> jsval" where
  "orEmptyFalsy v = (if truthy v then v else Str [])"

definition cellChangeMain :: "nat \<Rightarrow> row \<Rightarrow> row \<Rightarrow> nat \<Rightarrow> change list" where
  "cellChangeMain row prevRow currRow col =
     (let bef = orEmptyFalsy (cellAt prevRow col); aft = orEmptyFalsy (cellAt currRow col)
      in if bef \<noteq> aft
         then [\<lparr>r = row + 1, c = col + 1, oldVal = bef, newVal = aft\<rparr>]
         else [])"

definition rowChangesMain :: "grid \<Rightarrow> grid \<Rightarrow> nat \<Rightarrow> change list" where
  "rowChangesMain oldRows newRows row =
     (let prevRow = rowAt oldRows row; currRow = rowAt newRows row;
          totalCols = max (length prevRow) (length currRow)
      in concat (map (cellChangeMain row prevRow currRow) [0..<totalCols]))"

definition findChangesMain :: "grid option \<Rightarrow> grid option \<Rightarrow> change list" where
  "findChangesMain oldSheet newSheet =
     (let oldRows = sheetRows oldSheet; newRows = sheetRows newSheet;
          totalRows = max (length oldRows) (length newRows)
      in concat (map (rowChangesMain oldRows newRows) [0..<totalRows]))"

section \<open>The change message\<close>

text \<open>
  \<^verbatim>\<open>
  function firstNameFrom(fullName) {
    const parts = String(fullName || "").trim().split(/\s+/);
    return parts.length >= 2 ? parts[1] : (parts[0] || "<Sotrudnik>");
  }
  function prettyVal(v) {
    let s = String(v ?? "").trim();
    s = s.replace(/^["'<<>>]+|["'<<>>]+$/g, "");
    if (!s) return "<em dash>";
    return s.charAt(0).toUpperCase() + s.slice(1).toLowerCase();
  }
  \<close>
  (The Cyrillic word and the typographic characters of the source are transcribed
  between angle brackets here and below.) The replacement deletes the run of quote
  characters at the start of the string and the one at its end.
\<close>

definition defaultName :: jstring where
  "defaultName = [1057, 1086, 1090, 1088, 1091, 1076, 1085, 1080, 1082]"

definition firstNameFrom :: "jsval \<Rightarrow> jstring" where
  "firstNameFrom fullName =
     (let parts = splitWs (trim (toStr (if truthy fullName then fullName else Str [])))
      in if length parts \<ge> 2 then parts ! 1
         else if hd parts \<noteq> [] then hd parts else defaultName)"

definition isQuote :: "nat \<Rightarrow> bool" where
  "isQuote u = (u = 34 \<or> u = 39 \<or> u = 171 \<or> u = 187)"

definition stripQuotes :: "jstring \<Rightarrow> jstring" where
  "stripQuotes s = rev (dropWhile isQuote (rev (dropWhile isQuote s)))"

definition prettyVal :: "env \<Rightarrow> jsval \<Rightarrow> jstring" where
  "prettyVal E v =
     (let s = stripQuotes (trim (toStr (orEmpty v)))
      in if s = [] then [8212]
         else toUpperCase E (take 1 s) @ toLowerCase E (drop 1 s))"

text \<open>
  The directory of display handles, \<open>userMap\<close>: an object literal with six
  properties, keyed by full name.
\<close>

definition userMap :: "(jstring \<times> jstring) list" where
  "userMap =
   [([1040, 1089, 1072, 1083, 1073, 1077, 1082, 1086, 1074, 32, 1040, 1089, 1083, 1072,
      1085, 32, 1043, 1091, 1083, 1073, 1077, 1082, 1086, 1074, 1080, 1095],
     asc ''@hyposaurus''),
    ([1055, 1091, 1075, 1072, 1095, 1077, 1074, 32, 1045, 1075, 1086, 1088, 32, 1048,
      1075, 1086, 1088, 1077, 1074, 1080, 1095],
     asc ''@Mrr_ZakaT''),
    ([1057, 1090, 1088, 1102, 1082, 1086, 1074, 32, 1040, 1088, 1090, 1091, 1088, 32,
      1043, 1077, 1088, 1084, 1072, 1085, 1086, 1074, 1080, 1095],
     asc ''@latt0''),
    ([1050, 1074, 1072, 1096, 1080, 1083, 1072, 1074, 1072, 32, 1048, 1083, 1100, 1103,
      32, 1056, 1086, 1084, 1072, 1085, 1086, 1074, 1080, 1095],
     asc ''@Hesper1d1um''),
    ([1061, 1083, 1086, 1087, 1082, 1086, 1074, 32, 1052, 1072, 1082, 1089, 1080, 1084,
      32, 1057, 1077, 1088, 1075, 1077, 1077, 1074, 1080, 1095],
     asc ''@maxindasky''),
    ([1046, 1080, 1074, 1099, 1093, 32, 1054, 1083, 1077, 1075, 32, 1043, 1088, 1080,
      1075, 1086, 1088, 1100, 1077, 1074, 1080, 1095],
     asc ''@zhiv0y'')]"

text \<open>
  An object used as a dictionary also answers to the property names it inherits from
  \<open>Object.prototype\<close>, with a function or an object, neither of which is falsy, is a
  string, or has a \<open>push\<close> method.
\<close>

definition inheritedNames :: "jstring list" where
  "inheritedNames = map asc
     [''constructor'', ''__defineGetter__'', ''__defineSetter__'', ''hasOwnProperty'',
      ''__lookupGetter__'', ''__lookupSetter__'', ''isPrototypeOf'',
      ''propertyIsEnumerable'', ''toString'', ''valueOf'', ''__proto__'',
      ''toLocaleString'']"

text \<open>
  \<open>Object.keys\<close> lists the property names that are array indices first (the decimal
  numerals without a leading zero of the numbers below 4294967295), in ascending numeric
  order, and then the other names in the order of their creation. The dictionary
  \<open>groupedByDate\<close> is the list of its properties in the order of their creation, each
  with the lines pushed so far.
\<close>

definition digitsValue :: "jstring \<Rightarrow> nat" where
  "digitsValue s = foldl (\<lambda>a u. a * 10 + (u - 48)) 0 s"

definition isArrayIndex :: "jstring \<Rightarrow> bool" where
  "isArrayIndex s =
     (s \<noteq> [] \<and> list_all (\<lambda>u. 48 \<le> u \<and> u \<le> 57) s \<and> (hd s \<noteq> 48 \<or> length s = 1)
      \<and> digitsValue s < 4294967295)"

definition objectKeys :: "(jstring \<times> 'a) list \<Rightarrow> jstring list" where
  "objectKeys obj =
     sort_key digitsValue (filter isArrayIndex (map fst obj))
       @ filter (\<lambda>k. \<not> isArrayIndex k) (map fst obj)"

text \<open>
  \<^verbatim>\<open>
  function buildChangeMessage(changes, sheet) {
    const headerDates = sheet[1] || [];
    const groupedByDate = {};
    changes.forEach(ch => {
      if (ch.r < 3) return;
      const date   = normalizeDate(headerDates[ch.c - 1]) || "<neizvestnaya data>";
      const person = sheet[ch.r - 1]?.[1] || "<neizvestnyj sotrudnik>";
      const tag    = userMap[person] && String(userMap[person]).startsWith("@")
                       ? userMap[person] : "";
      const oldVal = prettyVal(ch.oldVal);
      const newVal = prettyVal(ch.newVal);
      const name   = firstNameFrom(person);
      const line = `${name}${tag ? " " + tag : ""} ( ${oldVal} <arrow> ${newVal} )`;
      (groupedByDate[date] ||= []).push(line);
    });
    let message = "<loudspeaker> <Obnaruzheny izmeneniya v grafike dezhurstv>!\n\n";
    for (const date of Object.keys(groupedByDate)) {
      message += `<calendar> ${date}:\n` + groupedByDate[date].join("\n") + "\n\n";
    }
    return message.trim();
  }
  \<close>
  \<open>changeDate\<close>, \<open>changeLine\<close> and \<open>pushLine\<close> are the three parts of the callback:
  the date of a change (which throws when the header cell is a number that is no date),
  its line, and the update of \<open>groupedByDate\<close>, which throws a \<open>TypeError\<close> when the
  date is the name of an inherited property. \<open>forEachChange\<close> is the loop.
\<close>

definition unknownDate :: jstring where
  "unknownDate = [1085, 1077, 1080, 1079, 1074, 1077, 1089, 1090, 1085, 1072, 1103, 32,
     1076, 1072, 1090, 1072]"

definition unknownPerson :: jstring where
  "unknownPerson = [1085, 1077, 1080, 1079, 1074, 1077, 1089, 1090, 1085, 1099, 1081, 32,
     1089, 1086, 1090, 1088, 1091, 1076, 1085, 1080, 1082]"

definition banner :: jstring where
  "banner = [55357, 56546, 32, 1054, 1073, 1085, 1072, 1088, 1091, 1078, 1077, 1085, 1099,
     32, 1080, 1079, 1084, 1077, 1085, 1077, 1085, 1080, 1103, 32, 1074, 32, 1075, 1088,
     1072, 1092, 1080, 1082, 1077, 32, 1076, 1077, 1078, 1091, 1088, 1089, 1090, 1074, 33,
     10, 10]"

definition calendar :: jstring where
  "calendar = [55357, 56517, 32]"

definition changeDate :: "grid \<Rightarrow> change \<Rightarrow> error + jstring" where
  "changeDate sheet ch =
     (let headerDates = rowAt sheet 1
      in case normalizeDate (if c ch = 0 then Undefined else cellAt headerDates (c ch - 1)) of
           Inl e \<Rightarrow> Inl e
         | Inr None \<Rightarrow> Inr unknownDate
         | Inr (Some d) \<Rightarrow> Inr d)"

definition changeLine :: "env \<Rightarrow> grid \<Rightarrow> change \<Rightarrow> jstring" where
  "changeLine E sheet ch =
     (let cell = cellAt (rowAt sheet (r ch - 1)) 1;
          person = (if truthy cell then cell else Str unknownPerson);
          tag = (case map_of userMap (toStr person) of
                   None \<Rightarrow> []
                 | Some h \<Rightarrow> if startsWith h (asc ''@'') then h else []);
          name = firstNameFrom person
      in name @ (if tag \<noteq> [] then asc '' '' @ tag else [])
           @ asc '' ( '' @ prettyVal E (oldVal ch) @ [32, 8594, 32]
           @ prettyVal E (newVal ch) @ asc '' )'')"

definition pushLine ::
  "jstring \<Rightarrow> jstring \<Rightarrow> (jstring \<times> jstring list) list
     \<Rightarrow> error + (jstring \<times> jstring list) list" where
  "pushLine date line grouped =
     (case map_of grouped date of
        Some ls \<Rightarrow> Inr (map (\<lambda>(k, v). if k = date then (k, v @ [line]) else (k, v)) grouped)
      | None \<Rightarrow>
          if date \<in> set inheritedNames
          then Inl (TypeError (asc ''(intermediate value).push is not a function''))
          else Inr (grouped @ [(date, [line])]))"

fun forEachChange ::
  "env \<Rightarrow> grid \<Rightarrow> change list \<Rightarrow> (jstring \<times> jstring list) list
     \<Rightarrow> error + (jstring \<times> jstring list) list" where
  "forEachChange E sheet [] grouped = Inr grouped"
| "forEachChange E sheet (ch # chs) grouped =
     (if r ch < 3 then forEachChange E sheet chs grouped
      else (case changeDate sheet ch of
              Inl e \<Rightarrow> Inl e
            | Inr date \<Rightarrow>
                (case pushLine date (changeLine E sheet ch) grouped of
                   Inl e \<Rightarrow> Inl e
                 | Inr grouped' \<Rightarrow> forEachChange E sheet chs grouped')))"

definition dateBlock :: "(jstring \<times> jstring list) list \<Rightarrow> jstring \<Rightarrow> jstring" where
  "dateBlock grouped date =
     calendar @ date @ asc '':'' @ [10]
       @ joinWith [10] (case map_of grouped date of None \<Rightarrow> [] | Some ls \<Rightarrow> ls) @ [10, 10]"

definition buildChangeMessage :: "env \<Rightarrow> change list \<Rightarrow> grid \<Rightarrow> error + jstring" where
  "buildChangeMessage E changes sheet =
     (case forEachChange E sheet changes [] of
        Inl e \<Rightarrow> Inl e
      | Inr grouped \<Rightarrow>
          Inr (trim (banner @ concat (map (dateBlock grouped) (objectKeys grouped)))))"

section \<open>The world around the program\<close>

text \<open>
  What the program reads and changes: the sheet as the grid service returns it
  (\<open>readGoogleSheet\<close> yields \<open>data.values || []\<close>), the snapshot file \<open>lastData.json\<close>
  (\<open>loadCache\<close> yields \<open>null\<close>, here \<open>None\<close>, when the file does not exist), the messages
  sent so far, each with the chat it went to, and the cell writes requested so far, each
  an address with a value. Reading the sheet and sending a message are taken to succeed.
\<close>

record world =
  w_sheet :: grid
  w_cache :: "grid option"
  w_sent :: "(jsval \<times> jstring) list"
  w_writes :: "(jstring \<times> jstring) list"

definition sendMessage :: "jsval \<Rightarrow> jstring \<Rightarrow> world \<Rightarrow> world" where
  "sendMessage chat body w = w\<lparr>w_sent := w_sent w @ [(chat, body)]\<rparr>"

definition saveCache :: "grid \<Rightarrow> world \<Rightarrow> world" where
  "saveCache sheetData w = w\<lparr>w_cache := Some sheetData\<rparr>"

text \<open>
  The test of the two \<open>findIndex\<close> calls on the header row, \<open>normalizeDate(v) === iso\<close>.
\<close>

definition dateIs :: "jstring \<Rightarrow> jsval \<Rightarrow> error + bool" where
  "dateIs target v = (case normalizeDate v of Inl e \<Rightarrow> Inl e | Inr d \<Rightarrow> Inr (d = Some target))"

definition undefinedFindIndex :: error where
  "undefinedFindIndex =
     TypeError (asc ''Cannot read properties of undefined (reading 'findIndex')'')"

section \<open>The daily digest\<close>

text \<open>
  \<^verbatim>\<open>
  async function sendDailyDuty(dateStr) {
    const target = dateStr ? new Date(dateStr) : new Date(Date.now() + 24 * 60 * 60 * 1000);
    const iso = target.toISOString().slice(0, 10);
    const sheet = await readGoogleSheet();
    const header = sheet[1];
    const colIndex = header.findIndex(v => normalizeDate(v) === iso);
    if (colIndex === -1) return;
    const day = [];
    const night = [];
    for (let i = 2; i < sheet.length; i++) {
      const fullName = sheet[i]?.[1];
      const duty     = sheet[i]?.[colIndex];
      if (!fullName || !duty) continue;
      const text = String(duty).trim().toLowerCase();
      if (text === "<vyh>" || text === "-") continue;
      const first = firstNameFrom(fullName);
      const tag   = userMap[fullName] || "";
      const lineBase = `${first}${tag ? " " + tag : ""}`;
      if (text.includes("<den'>")) {
        day.push(lineBase);
      } else if (text.includes("<noch'>")) {
        night.push(lineBase);
      } else {
        day.push(`${lineBase} <em dash> ${String(duty).trim()}`);
      }
    }
    if (!day.length && !night.length) return;
    let msg = `<calendar> <Dezhurstvo na> ${iso}:\n\n`;
    if (day.length)   msg += `<sun> <DEN'>:\n${day.join("\n")}\n\n`;
    if (night.length) msg += `<moon> <NOCH'>:\n${night.join("\n")}`;
    await bot.sendMessage(CHAT_ID, msg, { parse_mode: "HTML" });
  }
  \<close>
  The target date \<open>iso\<close> is an argument of the model: the program computes it from the
  clock. \<open>dutyStep\<close> is the body of the loop on the pair of the two lists, and
  \<open>digestTag\<close> the value of \<open>tag\<close>: \<open>None\<close> for the empty string.
\<close>

definition offToken :: jstring where
  "offToken = [1074, 1099, 1093]"

definition dayToken :: jstring where
  "dayToken = [1076, 1077, 1085, 1100]"

definition nightToken :: jstring where
  "nightToken = [1085, 1086, 1095, 1100]"

definition dutyBanner :: jstring where
  "dutyBanner = [55357, 56517, 32, 1044, 1077, 1078, 1091, 1088, 1089, 1090, 1074, 1086, 32,
     1085, 1072, 32]"

definition dayHeader :: jstring where
  "dayHeader = [9728, 65039, 32, 1044, 1045, 1053, 1068, 58, 10]"

definition nightHeader :: jstring where
  "nightHeader = [55356, 57113, 32, 1053, 1054, 1063, 1068, 58, 10]"

definition digestTag :: "env \<Rightarrow> jsval \<Rightarrow> jstring option" where
  "digestTag E fullName =
     (case map_of userMap (toStr fullName) of
        Some h \<Rightarrow> if h \<noteq> [] then Some h else None
      | None \<Rightarrow>
          if toStr fullName \<in> set inheritedNames then Some (inheritedText E (toStr fullName))
          else None)"

definition dutyStep ::
  "env \<Rightarrow> nat \<Rightarrow> jstring list \<times> jstring list \<Rightarrow> row \<Rightarrow> jstring list \<times> jstring list" where
  "dutyStep E colIndex acc cells =
     (let fullName = cellAt cells 1; duty = cellAt cells colIndex
      in if \<not> truthy fullName \<or> \<not> truthy duty then acc
         else
           let txt = toLowerCase E (trim (toStr duty))
           in if txt = offToken \<or> txt = asc ''-'' then acc
              else
                let first = firstNameFrom fullName;
                    lineBase = first @ (case digestTag E fullName of
                                          None \<Rightarrow> [] | Some t \<Rightarrow> asc '' '' @ t)
                in if includesStr txt dayToken then (fst acc @ [lineBase], snd acc)
                   else if includesStr txt nightToken then (fst acc, snd acc @ [lineBase])
                   else (fst acc @ [lineBase @ [32, 8212, 32] @ trim (toStr duty)], snd acc))"

definition digestText :: "jstring \<Rightarrow> jstring list \<Rightarrow> jstring list \<Rightarrow> jstring" where
  "digestText target day night =
     dutyBanner @ target @ asc '':'' @ [10, 10]
       @ (if day \<noteq> [] then dayHeader @ joinWith [10] day @ [10, 10] else [])
       @ (if night \<noteq> [] then nightHeader @ joinWith [10] night else [])"

definition sendDailyDuty :: "env \<Rightarrow> world \<Rightarrow> jstring \<Rightarrow> error + world" where
  "sendDailyDuty E w target =
     (let sheet = w_sheet w
      in if length sheet < 2 then Inl undefinedFindIndex
         else
           case findIndexE (dateIs target) (sheet ! 1) of
             Inl e \<Rightarrow> Inl e
           | Inr None \<Rightarrow> Inr w
           | Inr (Some colIndex) \<Rightarrow>
               (case foldl (dutyStep E colIndex) ([], []) (drop 2 sheet) of
                  (day, night) \<Rightarrow>
                    if day = [] \<and> night = [] then Inr w
                    else Inr (sendMessage (CHAT_ID E) (digestText target day night) w)))"

section \<open>Column labels\<close>

text \<open>
  \<^verbatim>\<open>
  function numToCol(n) {
    let s = "";
    let x = n + 1;
    while (x > 0) {
      const m = (x - 1) % 26;
      s = String.fromCharCode(65 + m) + s;
      x = Math.floor((x - 1) / 26);
    }
    return s;
  }
  \<close>
  The argument is an index returned by \<open>findIndex\<close>, a natural number. The loop is the
  function \<open>numToColLoop\<close> on the pair of its variables \<open>x\<close> and \<open>s\<close>.
\<close>

fun numToColLoop :: "nat \<Rightarrow> jstring \<Rightarrow> jstring" where
  "numToColLoop x s =
     (if x > 0 then numToColLoop ((x - 1) div 26) ((65 + (x - 1) mod 26) # s) else s)"

declare numToColLoop.simps [simp del]

definition numToCol :: "nat \<Rightarrow> jstring" where
  "numToCol n = numToColLoop (n + 1) []"

text \<open>
  The older updater of \<open>main.js\<close> reads the range \<open>A1:Z100\<close> only and labels the column
  with a single letter: \<open>String.fromCharCode(65 + colIndex)\<close>.
\<close>

definition colLetter :: "nat \<Rightarrow> jstring" where
  "colLetter colIndex = [(65 + colIndex) mod 65536]"

text \<open>
  The label read back as a number, for the round trip: the letters \<open>A\<close> to \<open>Z\<close> are the
  digits 1 to 26 of a base-26 numeral without a zero digit, most significant first, and
  the index is the numeral's value less one. The source has no decoder; this one
  follows the specification's words.
\<close>

definition labelValue :: "jstring \<Rightarrow> nat" where
  "labelValue s = foldl (\<lambda>a u. a * 26 + (u - 64)) 0 s"



section \<open>The diff cycle and the update command\<close>

text \<open>
  \<^verbatim>\<open>
  async function notifyGoogleChanges() {
    const currentSheet = await readGoogleSheet();
    const cachedSheet = loadCache();
    if (!cachedSheet) {
      saveCache(currentSheet);
      return;
    }
    const changes = findChanges(cachedSheet, currentSheet);
    if (changes.length > 0) {
      const msg = buildChangeMessage(changes, currentSheet);
      await bot.sendMessage(CHAT_ID, msg, { parse_mode: "HTML" });
      saveCache(currentSheet);
    }
  }
  \<close>
\<close>

definition notifyGoogleChanges :: "env \<Rightarrow> world \<Rightarrow> error + world" where
  "notifyGoogleChanges E w =
     (let currentSheet = w_sheet w
      in case w_cache w of
           None \<Rightarrow> Inr (saveCache currentSheet w)
         | Some cachedSheet \<Rightarrow>
             (let changes = findChanges (Some cachedSheet) (Some currentSheet)
              in if length changes > 0
                 then (case buildChangeMessage E changes currentSheet of
                         Inl e \<Rightarrow> Inl e
                       | Inr msg \<Rightarrow> Inr (saveCache currentSheet (sendMessage (CHAT_ID E) msg w)))
                 else Inr w))"

text \<open>
  \<^verbatim>\<open>
  const SHEET_TAB   = "september";

  async function updateGoogleSheet(dateStr, personName, newValue) {
    ...
    const sheetData = await readGoogleSheet();
    const headerRow = sheetData[1];
    const colIndex  = headerRow.findIndex(d => normalizeDate(d) === dateStr);
    if (colIndex === -1) throw new Error("<Data ne najdena>");
    const rowIndex = sheetData.findIndex(r => r[1] === personName);
    if (rowIndex === -1) throw new Error("<Sotrudnik ne najden>");
    const colA1  = numToCol(colIndex);
    const cellRef = `${SHEET_TAB}!${colA1}${rowIndex + 1}`;
    await sheetsApi.spreadsheets.values.update({
      spreadsheetId: SHEET_ID, range: cellRef,
      valueInputOption: "USER_ENTERED", requestBody: { values: [[newValue]] } });
  }
  \<close>
  The write is recorded in \<open>w_writes\<close> when the service accepts it, and the sheet is then
  what the service makes of it.
\<close>

definition SHEET_TAB :: jstring where
  "SHEET_TAB = asc ''september''"

definition dateNotFound :: jstring where
  "dateNotFound = [1044, 1072, 1090, 1072, 32, 1085, 1077, 32, 1085, 1072, 1081, 1076, 1077,
     1085, 1072]"

definition personNotFound :: jstring where
  "personNotFound = [1057, 1086, 1090, 1088, 1091, 1076, 1085, 1080, 1082, 32, 1085, 1077,
     32, 1085, 1072, 1081, 1076, 1077, 1085]"

definition cellRef :: "nat \<Rightarrow> nat \<Rightarrow> jstring" where
  "cellRef colIndex rowIndex = SHEET_TAB @ asc ''!'' @ numToCol colIndex @ showNat (rowIndex + 1)"

definition updateGoogleSheet ::
  "env \<Rightarrow> world \<Rightarrow> jstring \<Rightarrow> jstring \<Rightarrow> jstring \<Rightarrow> error + world" where
  "updateGoogleSheet E w dateStr personName newValue =
     (let sheetData = w_sheet w
      in if length sheetData < 2 then Inl undefinedFindIndex
         else
           case findIndexE (dateIs dateStr) (sheetData ! 1) of
             Inl e \<Rightarrow> Inl e
           | Inr None \<Rightarrow> Inl (Error dateNotFound)
           | Inr (Some colIndex) \<Rightarrow>
               (case findIndex (\<lambda>cells. cellAt cells 1 = Str personName) sheetData of
                  None \<Rightarrow> Inl (Error personNotFound)
                | Some rowIndex \<Rightarrow>
                    (case valuesUpdate E (cellRef colIndex rowIndex) newValue sheetData of
                       Inl e \<Rightarrow> Inl e
                     | Inr sheetData' \<Rightarrow>
                         Inr (w\<lparr>w_sheet := sheetData',
                                w_writes := w_writes w @ [(cellRef colIndex rowIndex, newValue)]\<rparr>))))"

text \<open>
  \<^verbatim>\<open>
  bot.on("message", async msg => {
    if (!allowedUsers.includes(msg.from.id)) return;
    const parts = msg.text?.trim().split(/\s+/);
    if (!parts || parts.length < 3) {
      return bot.sendMessage(msg.chat.id, "<usage>");
    }
    const dateStr = parts[0];
    if (!/^\d{4}-\d{2}-\d{2}$/.test(dateStr)) {
      return bot.sendMessage(msg.chat.id, "<bad date format>");
    }
    const newValue = parts.pop();
    const personName = parts.slice(1).join(" ");
    try {
      await updateGoogleSheet(dateStr, personName, newValue);
      await bot.sendMessage(msg.chat.id, "<updated>");
      await notifyGoogleChanges();
    } catch (err) {
      bot.sendMessage(msg.chat.id, "<error>: " + err.message);
    }
  });
  \<close>
  A message has a sender, a chat and, when it is a text message, a text. Each of the
  two functions called in the \<open>try\<close> block throws before it changes anything, so the
  world the \<open>catch\<close> branch starts from is the one before the call.
\<close>

record incoming =
  msg_from :: int
  msg_chat :: int
  msg_text :: "jstring option"

definition usageReply :: jstring where
  "usageReply = [1055, 1086, 1082, 1072, 32, 1095, 1090, 1086, 32, 1052, 1072, 1082, 1089, 32,
     1085, 1077, 32, 1086, 1073, 1091, 1095, 1080, 1083, 32, 1084, 1077, 1085, 1103, 32, 1090,
     1072, 1082, 1086, 1084, 1091, 32, 1092, 1091, 1085, 1082, 1094, 1080, 1086, 1085, 1072,
     1083, 1091, 32, 55357, 56877, 55357, 56468]"

definition badDateReply :: jstring where
  "badDateReply = [10060, 32, 1053, 1077, 1074, 1077, 1088, 1085, 1099, 1081, 32, 1092, 1086,
     1088, 1084, 1072, 1090, 32, 1076, 1072, 1090, 1099, 46, 32, 1048, 1089, 1087, 1086, 1083,
     1100, 1079, 1091, 1081, 1090, 1077, 32, 89, 89, 89, 89, 45, 77, 77, 45, 68, 68]"

definition updatedReply :: jstring where
  "updatedReply = [9989, 32, 1047, 1072, 1087, 1080, 1089, 1100, 32, 1086, 1073, 1085, 1086,
     1074, 1083, 1077, 1085, 1072]"

definition errPrefix :: jstring where
  "errPrefix = [10060, 32, 1054, 1096, 1080, 1073, 1082, 1072, 58, 32]"

definition isDigit :: "nat \<Rightarrow> bool" where
  "isDigit u = (48 \<le> u \<and> u \<le> 57)"

fun matchesDate :: "jstring \<Rightarrow> bool" where
  "matchesDate [y1, y2, y3, y4, h1, m1, m2, h2, d1, d2] =
     (isDigit y1 \<and> isDigit y2 \<and> isDigit y3 \<and> isDigit y4 \<and> h1 = 45 \<and> isDigit m1 \<and> isDigit m2
      \<and> h2 = 45 \<and> isDigit d1 \<and> isDigit d2)"
| "matchesDate s = False"

definition handler :: "env \<Rightarrow> world \<Rightarrow> incoming \<Rightarrow> world" where
  "handler E w msg =
     (if msg_from msg \<notin> set (allowedUsers E) then w
      else
        case map_option (\<lambda>t. splitWs (trim t)) (msg_text msg) of
          None \<Rightarrow> sendMessage (Num (msg_chat msg)) usageReply w
        | Some parts \<Rightarrow>
            if length parts < 3 then sendMessage (Num (msg_chat msg)) usageReply w
            else
              let dateStr = hd parts
              in if \<not> matchesDate dateStr then sendMessage (Num (msg_chat msg)) badDateReply w
                 else
                   let newValue = last parts;
                       personName = joinWith (asc '' '') (tl (butlast parts))
                   in case updateGoogleSheet E w dateStr personName newValue of
                        Inl err \<Rightarrow> sendMessage (Num (msg_chat msg)) (errPrefix @ message err) w
                      | Inr w1 \<Rightarrow>
                          (let w2 = sendMessage (Num (msg_chat msg)) updatedReply w1
                           in case notifyGoogleChanges E w2 of
                                Inl err \<Rightarrow>
                                  sendMessage (Num (msg_chat msg)) (errPrefix @ message err) w2
                              | Inr w3 \<Rightarrow> w3))"

section \<open>A sample environment\<close>

text \<open>
  For the examples: case mappings that know the Latin and the Russian letters, two
  allowed users, and a grid service that serves the cell \<open>C3\<close> and the cell \<open>C2\<close> of the
  tab and is out of reach for every other address. \<open>sampleSheet\<close> has a title row, a
  header row with a date as text, a date as a serial number and two day numbers, three
  person rows, one of them empty, and a row that carries the name of the first person
  again. In the column of the serial number every entry is a dash, the word for a day
  off, or missing.
\<close>

definition lowerUnit :: "nat \<Rightarrow> nat" where
  "lowerUnit u = (if (65 \<le> u \<and> u \<le> 90) \<or> (1040 \<le> u \<and> u \<le> 1071) then u + 32 else u)"

definition upperUnit :: "nat \<Rightarrow> nat" where
  "upperUnit u = (if (97 \<le> u \<and> u \<le> 122) \<or> (1072 \<le> u \<and> u \<le> 1103) then u - 32 else u)"

definition sampleService :: "jstring \<Rightarrow> jstring \<Rightarrow> grid \<Rightarrow> error + grid" where
  "sampleService ref v g =
     (if ref = asc ''september!C3'' then Inr (g[2 := (rowAt g 2)[2 := Str v]])
      else if ref = asc ''september!C2'' then Inr (g[1 := (rowAt g 1)[2 := Str v]])
      else Inl (Error (asc ''socket hang up'')))"

definition sampleEnv :: env where
  "sampleEnv =
     \<lparr>toUpperCase = map upperUnit, toLowerCase = map lowerUnit,
      inheritedText = (\<lambda>k. asc ''function () { [native code] }''),
      CHAT_ID = Str (asc ''-1001''), allowedUsers = [1001, 1002],
      valuesUpdate = sampleService\<rparr>"

definition sampleSheet :: grid where
  "sampleSheet =
     [[Str (asc ''Duty roster'')],
      [Str [], Str (asc ''Name''), Str (asc ''2024-09-05T10:00:00''), Num 45541,
       Str (asc ''7''), Str (asc ''3'')],
      [Str (asc ''1''), Str (asc ''Ivanov Ivan Ivanovich''), Str dayToken, Str (asc ''-''),
       Str (asc ''x'')],
      [Str (asc ''2''), Str (asc ''Petrov Petr Petrovich''), Str nightToken, Str offToken],
      [],
      [Str (asc ''3''), Str (asc ''Ivanov Ivan Ivanovich''), Str offToken,
       Str (asc '' '' @ [1042, 1099, 1093] @ asc '' '')]]"

definition sampleWorld :: world where
  "sampleWorld = \<lparr>w_sheet = sampleSheet, w_cache = Some sampleSheet, w_sent = [], w_writes = []\<rparr>"


text \<open>
  Two lists of changes against the sample sheet. The first has a change in the header
  row, two changes on 5 September and, between them, one on 6 September. The second has
  two changes in the columns that are headed by the day numbers 7 and 3, in that order.
\<close>

definition sampleChanges :: "change list" where
  "sampleChanges =
     [\<lparr>r = 2, c = 3, oldVal = Str (asc ''2024-09-05''), newVal = Str (asc ''2024-09-05T10:00:00'')\<rparr>,
      \<lparr>r = 3, c = 3, oldVal = Str nightToken, newVal = Str dayToken\<rparr>,
      \<lparr>r = 4, c = 4, oldVal = Str dayToken, newVal = Str offToken\<rparr>,
      \<lparr>r = 6, c = 3, oldVal = Str [], newVal = Str offToken\<rparr>]"

definition dayNumberChanges :: "change list" where
  "dayNumberChanges =
     [\<lparr>r = 3, c = 5, oldVal = Str [], newVal = Str (asc ''x'')\<rparr>,
      \<lparr>r = 4, c = 6, oldVal = Str [], newVal = Str (asc ''z'')\<rparr>]"

section \<open>Notions of the specification\<close>

text \<open>
  The specification speaks of the first column or row that matches, and of a digest
  entry that is skipped: one without a name, one that is empty, the word for a day off,
  or a single dash. \<open>firstMatch p xs k\<close> says that \<open>k\<close> is the first index of \<open>xs\<close> whose
  element passes the test \<open>p\<close>, every element before it failing the test without an
  exception.
\<close>

definition firstMatch :: "('a \<Rightarrow> error + bool) \<Rightarrow> 'a list \<Rightarrow> nat \<Rightarrow> bool" where
  "firstMatch p xs k =
     (k < length xs \<and> p (xs ! k) = Inr True \<and> list_all (\<lambda>x. p x = Inr False) (take k xs))"

definition noMatch :: "('a \<Rightarrow> error + bool) \<Rightarrow> 'a list \<Rightarrow> bool" where
  "noMatch p xs = list_all (\<lambda>x. p x = Inr False) xs"


text \<open>
  The value of a sheet at a position, the text that the specification compares (a
  missing value reads as the empty string), and whether a list of changes has a record
  for a position (rows and columns counted from 0).
\<close>

definition valueAt :: "grid option \<Rightarrow> nat \<Rightarrow> nat \<Rightarrow> jsval" where
  "valueAt sh row col = cellAt (rowAt (sheetRows sh) row) col"

definition cellText :: "jsval \<Rightarrow> jstring" where
  "cellText v = (if nullish v then [] else toStr v)"

definition emitsAt :: "change list \<Rightarrow> nat \<Rightarrow> nat \<Rightarrow> bool" where
  "emitsAt changes row col = list_ex (\<lambda>ch. r ch = row + 1 \<and> c ch = col + 1) changes"

text \<open>
  \<open>firstRow name sheet i\<close>: row \<open>i\<close>, counted from 0 over all the rows of the sheet, is
  the first row whose second cell is the string \<open>name\<close>.
\<close>

definition firstRow :: "jstring \<Rightarrow> grid \<Rightarrow> nat \<Rightarrow> bool" where
  "firstRow name sheet i =
     (i < length sheet \<and> cellAt (sheet ! i) 1 = Str name
      \<and> list_all (\<lambda>cells. cellAt cells 1 \<noteq> Str name) (take i sheet))"





text \<open>
  The change message as the specification describes it. The changes of the person rows
  are kept; the dates of the kept changes are listed in the order in which they are first
  seen; and for each date one block holds the lines of the kept changes of that date,
  in the order of the changes. \<open>plainDate\<close> holds for a change whose date resolves
  without an exception to a text that is neither an array index nor the name of an
  inherited property.
\<close>

fun firstSeen :: "'a list \<Rightarrow> 'a list" where
  "firstSeen [] = []"
| "firstSeen (x # xs) = x # filter (\<lambda>y. y \<noteq> x) (firstSeen xs)"

definition keptChanges :: "change list \<Rightarrow> change list" where
  "keptChanges changes = filter (\<lambda>ch. 3 \<le> r ch) changes"

definition dateText :: "grid \<Rightarrow> change \<Rightarrow> jstring" where
  "dateText sheet ch = (case changeDate sheet ch of Inl e \<Rightarrow> [] | Inr d \<Rightarrow> d)"

definition plainDate :: "grid \<Rightarrow> change \<Rightarrow> bool" where
  "plainDate sheet ch =
     (case changeDate sheet ch of
        Inl e \<Rightarrow> False
      | Inr d \<Rightarrow> d \<notin> set inheritedNames \<and> \<not> isArrayIndex d)"

definition specBlock :: "env \<Rightarrow> grid \<Rightarrow> change list \<Rightarrow> jstring \<Rightarrow> jstring" where
  "specBlock E sheet kept date =
     calendar @ date @ asc '':'' @ [10]
       @ joinWith [10] (map (changeLine E sheet) (filter (\<lambda>ch. dateText sheet ch = date) kept))
       @ [10, 10]"

definition composeSpec :: "env \<Rightarrow> change list \<Rightarrow> grid \<Rightarrow> jstring" where
  "composeSpec E changes sheet =
     trim (banner
           @ concat (map (specBlock E sheet (keptChanges changes))
                       (firstSeen (map (dateText sheet) (keptChanges changes)))))"

text \<open>
  For the proof: a dictionary after a line is pushed under a date that is not an
  inherited name, and after a list of dated lines is pushed.
\<close>

definition push ::
  "jstring \<Rightarrow> jstring \<Rightarrow> (jstring \<times> jstring list) list \<Rightarrow> (jstring \<times> jstring list) list" where
  "push date line grouped =
     (case map_of grouped date of
        Some ls \<Rightarrow> map (\<lambda>(k, v). if k = date then (k, v @ [line]) else (k, v)) grouped
      | None \<Rightarrow> grouped @ [(date, [line])])"

fun pushAll ::
  "(jstring \<times> jstring) list \<Rightarrow> (jstring \<times> jstring list) list \<Rightarrow> (jstring \<times> jstring list) list" where
  "pushAll [] grouped = grouped"
| "pushAll ((date, line) # rest) grouped = pushAll rest (push date line grouped)"

definition linesOf :: "(jstring \<times> jstring) list \<Rightarrow> jstring \<Rightarrow> jstring list" where
  "linesOf dated date = map snd (filter (\<lambda>p. fst p = date) dated)"

section \<open>Properties of the column labels\<close>


lemma numToColLoop_step:
  "0 < x \<Longrightarrow> numToColLoop x s = numToColLoop ((x - 1) div 26) ((65 + (x - 1) mod 26) # s)"
  by (subst numToColLoop.simps) simp

lemma numToColLoop_zero: "numToColLoop 0 s = s"
  by (subst numToColLoop.simps) simp

lemma numToColLoop_acc: "numToColLoop x s = numToColLoop x [] @ s"
proof (induction x arbitrary: s rule: less_induct)
  case (less x)
  show ?case
  proof (cases "0 < x")
    case True
    then have lt: "(x - 1) div 26 < x"
      by (simp add: le_less_trans [OF div_le_dividend])
    let ?q = "(x - 1) div 26" and ?c = "65 + (x - 1) mod 26"
    have "numToColLoop x s = numToColLoop ?q (?c # s)"
      using True by (rule numToColLoop_step)
    also have "\<dots> = numToColLoop ?q [] @ (?c # s)"
      by (rule less.IH [OF lt])
    also have "\<dots> = (numToColLoop ?q [] @ [?c]) @ s"
      by simp
    also have "numToColLoop ?q [] @ [?c] = numToColLoop ?q [?c]"
      by (rule less.IH [OF lt, symmetric])
    also have "numToColLoop ?q [?c] = numToColLoop x []"
      using True by (rule numToColLoop_step [symmetric])
    finally show ?thesis .
  next
    case False
    then show ?thesis by (simp add: numToColLoop_zero)
  qed
qed

lemma numToColLoop_unfold:
  "0 < x \<Longrightarrow> numToColLoop x [] = numToColLoop ((x - 1) div 26) [] @ [65 + (x - 1) mod 26]"
  using numToColLoop_acc [of "(x - 1) div 26" "[65 + (x - 1) mod 26]"]
    numToColLoop_step [of x "[]"] by simp

lemma labelValue_snoc: "labelValue (s @ [u]) = labelValue s * 26 + (u - 64)"
  by (simp add: labelValue_def)

lemma labelValue_numToColLoop: "labelValue (numToColLoop x []) = x"
proof (induction x rule: less_induct)
  case (less x)
  show ?case
  proof (cases "0 < x")
    case True
    then have lt: "(x - 1) div 26 < x"
      by (simp add: le_less_trans [OF div_le_dividend])
    have "labelValue (numToColLoop x []) =
        labelValue (numToColLoop ((x - 1) div 26) []) * 26 + (65 + (x - 1) mod 26 - 64)"
      by (simp only: numToColLoop_unfold [OF True] labelValue_snoc)
    also have "\<dots> = (x - 1) div 26 * 26 + (65 + (x - 1) mod 26 - 64)"
      by (simp only: less.IH [OF lt])
    also have "\<dots> = x" using True by simp
    finally show ?thesis .
  next
    case False
    then show ?thesis by (simp add: numToColLoop_zero labelValue_def)
  qed
qed


lemma numToCol_examples:
  "numToCol 0 = asc ''A''" "numToCol 25 = asc ''Z''" "numToCol 26 = asc ''AA''"
  "numToCol 27 = asc ''AB''" "numToCol 701 = asc ''ZZ''" "numToCol 702 = asc ''AAA''"
  by (simp_all add: numToCol_def numToColLoop_step numToColLoop_zero asc_def)

lemma colLetter_numToCol: "n < 26 \<Longrightarrow> colLetter n = numToCol n"
  by (simp add: colLetter_def numToCol_def numToColLoop_step numToColLoop_zero)

lemma colLetter_26: "colLetter 26 = asc ''['' \<and> numToCol 26 = asc ''AA''"
  by (simp add: colLetter_def numToCol_def numToColLoop_step numToColLoop_zero asc_def)

lemma numToCol_inject: "numToCol m = numToCol n \<Longrightarrow> m = n"
proof -
  assume "numToCol m = numToCol n"
  then have "labelValue (numToCol m) = labelValue (numToCol n)" by simp
  then show "m = n" by (simp add: numToCol_def labelValue_numToColLoop)
qed


section \<open>Evaluation\<close>

lemma showNat_digit: "n < 10 \<Longrightarrow> showNat n = [48 + n]"
  by (subst showNat.simps) simp

lemma showNat_more: "10 \<le> n \<Longrightarrow> showNat n = showNat (n div 10) @ [48 + n mod 10]"
  by (subst showNat.simps) simp

lemma replicate_numeral: "replicate (numeral v) x = x # replicate (numeral v - 1) x"
  by (simp add: numeral_eq_Suc)

lemmas date_defs =
  toISOString_def isoDate_def isoTime_def isoYear_def padNum_def YearFromTime_def
  yearOfDay_def MonthFromTime_def DateFromTime_def DayWithinYear_def InLeapYear_def
  DaysInYear_def DayFromYear_def Day_def TimeWithinDay_def msPerDay_def base_def


lemma normalizeDate_45539: "normalizeDate (Num 45539) = Inr (Some (asc ''2024-09-04''))"
  by (simp add: date_defs showNat_digit showNat_more replicate_numeral asc_def Let_def)

lemma normalizeDate_45541: "normalizeDate (Num 45541) = Inr (Some (asc ''2024-09-06''))"
  by (simp add: date_defs showNat_digit showNat_more replicate_numeral asc_def Let_def)

section \<open>The calendar\<close>











section \<open>The date of a time value\<close>




section \<open>Scans\<close>

lemma findIndexE_None_iff: "findIndexE p xs = Inr None \<longleftrightarrow> noMatch p xs"
  by (induction xs) (auto simp: noMatch_def split: sum.splits bool.splits)

lemma findIndexE_Cons_0: "findIndexE p (x # xs) = Inr (Some 0) \<longleftrightarrow> p x = Inr True"
  by (auto split: sum.splits bool.splits)

lemma findIndexE_Cons_Suc:
  "findIndexE p (x # xs) = Inr (Some (Suc j)) \<longleftrightarrow> p x = Inr False \<and> findIndexE p xs = Inr (Some j)"
  by (auto split: sum.splits bool.splits)

lemma findIndexE_Some_iff: "findIndexE p xs = Inr (Some k) \<longleftrightarrow> firstMatch p xs k"
proof (induction xs arbitrary: k)
  case Nil
  show ?case by (simp add: firstMatch_def)
next
  case (Cons x xs)
  show ?case
  proof (cases k)
    case 0
    then show ?thesis by (simp only: findIndexE_Cons_0) (simp add: firstMatch_def)
  next
    case (Suc j)
    have "findIndexE p (x # xs) = Inr (Some (Suc j)) \<longleftrightarrow> p x = Inr False \<and> firstMatch p xs j"
      by (simp only: findIndexE_Cons_Suc Cons.IH)
    also have "\<dots> \<longleftrightarrow> firstMatch p (x # xs) (Suc j)"
      by (auto simp: firstMatch_def)
    finally show ?thesis using Suc by simp
  qed
qed

lemma findIndexE_total:
  "list_all (\<lambda>x. \<exists>b. p x = Inr b) xs \<Longrightarrow> \<exists>k. findIndexE p xs = Inr k"
  by (induction xs) (auto split: sum.splits bool.splits)

lemma findIndex_Some_iff:
  "findIndex p xs = Some k \<longleftrightarrow> k < length xs \<and> p (xs ! k) \<and> list_all (\<lambda>x. \<not> p x) (take k xs)"
proof (induction xs arbitrary: k)
  case Nil
  show ?case by simp
next
  case (Cons x xs)
  then show ?case by (cases k) auto
qed


section \<open>Date normalization\<close>












section \<open>Authorization\<close>

text \<open>
  C3. A message whose sender is not on the allow-list leaves the world as it is,
  whatever its text: no message is sent, no cell is written, and neither the sheet nor
  the snapshot changes.
\<close>

theorem handler_ignores_unlisted:
  "msg_from msg \<notin> set (allowedUsers E) \<Longrightarrow> handler E w msg = w"
  by (simp add: handler_def)

theorem handler_ignores_unlisted_witness:
  "handler sampleEnv sampleWorld
     \<lparr>msg_from = 5, msg_chat = 77,
      msg_text = Some (asc ''2024-09-05 Ivanov Ivan Ivanovich night'')\<rparr> = sampleWorld"
  using handler_ignores_unlisted [of "\<lparr>msg_from = 5, msg_chat = 77,
      msg_text = Some (asc ''2024-09-05 Ivanov Ivan Ivanovich night'')\<rparr>" sampleEnv sampleWorld]
  by (simp add: sampleEnv_def)

section \<open>A well-formed command of an allowed sender\<close>

text \<open>
  What the handler does with a command of at least three words whose first word has
  the shape of a date: the last word is the new value and the words between are the
  name, joined by single spaces.
\<close>

lemma handler_command:
  assumes "msg_from msg \<in> set (allowedUsers E)"
    and "msg_text msg = Some t"
    and "splitWs (trim t) = parts"
    and "3 \<le> length parts"
    and "matchesDate (hd parts)"
  shows "handler E w msg =
     (case updateGoogleSheet E w (hd parts) (joinWith (asc '' '') (tl (butlast parts))) (last parts) of
        Inl err \<Rightarrow> sendMessage (Num (msg_chat msg)) (errPrefix @ message err) w
      | Inr w1 \<Rightarrow>
          (case notifyGoogleChanges E (sendMessage (Num (msg_chat msg)) updatedReply w1) of
             Inl err \<Rightarrow>
               sendMessage (Num (msg_chat msg)) (errPrefix @ message err)
                 (sendMessage (Num (msg_chat msg)) updatedReply w1)
           | Inr w3 \<Rightarrow> w3))"
  using assms by (simp add: handler_def Let_def split: sum.splits)

lemma sample_command:
  "splitWs (trim (asc ''2024-09-05 Ivanov Ivan Ivanovich night''))
     = [asc ''2024-09-05'', asc ''Ivanov'', asc ''Ivan'', asc ''Ivanovich'', asc ''night'']"
  "matchesDate (asc ''2024-09-05'')"
  "joinWith (asc '' '') [asc ''Ivanov'', asc ''Ivan'', asc ''Ivanovich'']
     = asc ''Ivanov Ivan Ivanovich''"
  by (simp_all add: trim_def isSpace_def isDigit_def asc_def)

section \<open>The diff\<close>

lemma cellChange_mem:
  "ch \<in> set (cellChange row p q col) \<longleftrightarrow>
     orEmpty (cellAt p col) \<noteq> orEmpty (cellAt q col)
     \<and> ch = \<lparr>r = row + 1, c = col + 1, oldVal = orEmpty (cellAt p col),
              newVal = orEmpty (cellAt q col)\<rparr>"
  by (auto simp: cellChange_def Let_def)

lemma rowChanges_mem:
  "ch \<in> set (rowChanges oldRows newRows row) \<longleftrightarrow>
     (\<exists>col < max (length (rowAt oldRows row)) (length (rowAt newRows row)).
        ch \<in> set (cellChange row (rowAt oldRows row) (rowAt newRows row) col))"
  by (auto simp: rowChanges_def Let_def)

lemma findChanges_mem:
  "ch \<in> set (findChanges oldSheet newSheet) \<longleftrightarrow>
     (\<exists>row < max (length (sheetRows oldSheet)) (length (sheetRows newSheet)).
        ch \<in> set (rowChanges (sheetRows oldSheet) (sheetRows newSheet) row))"
  by (auto simp: findChanges_def Let_def)

lemma differ_in_range:
  assumes "orEmpty (cellAt (rowAt oldRows row) col) \<noteq> orEmpty (cellAt (rowAt newRows row) col)"
  shows "row < max (length oldRows) (length newRows)"
    and "col < max (length (rowAt oldRows row)) (length (rowAt newRows row))"
proof -
  show "col < max (length (rowAt oldRows row)) (length (rowAt newRows row))"
    using assms by (auto simp: cellAt_def split: if_splits)
  then show "row < max (length oldRows) (length newRows)"
    by (auto simp: rowAt_def split: if_splits)
qed

lemma emitsAt_iff:
  "emitsAt (findChanges oldSheet newSheet) row col \<longleftrightarrow>
     orEmpty (valueAt oldSheet row col) \<noteq> orEmpty (valueAt newSheet row col)"
proof
  assume "emitsAt (findChanges oldSheet newSheet) row col"
  then obtain ch where "ch \<in> set (findChanges oldSheet newSheet)"
    and "r ch = row + 1" and "c ch = col + 1"
    by (auto simp: emitsAt_def list_ex_iff)
  then show "orEmpty (valueAt oldSheet row col) \<noteq> orEmpty (valueAt newSheet row col)"
    by (auto simp: findChanges_mem rowChanges_mem cellChange_mem valueAt_def)
next
  assume d: "orEmpty (valueAt oldSheet row col) \<noteq> orEmpty (valueAt newSheet row col)"
  let ?p = "rowAt (sheetRows oldSheet) row" and ?q = "rowAt (sheetRows newSheet) row"
  let ?ch = "\<lparr>r = row + 1, c = col + 1, oldVal = orEmpty (cellAt ?p col),
              newVal = orEmpty (cellAt ?q col)\<rparr>"
  from d have d': "orEmpty (cellAt ?p col) \<noteq> orEmpty (cellAt ?q col)"
    by (simp add: valueAt_def)
  have "?ch \<in> set (findChanges oldSheet newSheet)"
    using d' differ_in_range [OF d']
    by (auto simp: findChanges_mem rowChanges_mem cellChange_mem)
  then show "emitsAt (findChanges oldSheet newSheet) row col"
    unfolding emitsAt_def list_ex_iff by (intro bexI [of _ ?ch]) simp_all
qed

lemma findChanges_same: "findChanges sh sh = []"
proof (cases "findChanges sh sh")
  case Nil
  then show ?thesis .
next
  case (Cons ch chs)
  then have "ch \<in> set (findChanges sh sh)" by simp
  then have False
    by (auto simp: findChanges_mem rowChanges_mem cellChange_mem)
  then show ?thesis ..
qed

lemma findChanges_records:
  "ch \<in> set (findChanges oldSheet newSheet) \<Longrightarrow>
     0 < r ch \<and> 0 < c ch
     \<and> oldVal ch = orEmpty (valueAt oldSheet (r ch - 1) (c ch - 1))
     \<and> newVal ch = orEmpty (valueAt newSheet (r ch - 1) (c ch - 1))
     \<and> oldVal ch \<noteq> newVal ch"
  by (auto simp: findChanges_mem rowChanges_mem cellChange_mem valueAt_def)

text \<open>The same for the older \<open>findChanges\<close> of \<open>main.js\<close>.\<close>

lemma cellChangeMain_mem:
  "ch \<in> set (cellChangeMain row p q col) \<longleftrightarrow>
     orEmptyFalsy (cellAt p col) \<noteq> orEmptyFalsy (cellAt q col)
     \<and> ch = \<lparr>r = row + 1, c = col + 1, oldVal = orEmptyFalsy (cellAt p col),
              newVal = orEmptyFalsy (cellAt q col)\<rparr>"
  by (auto simp: cellChangeMain_def Let_def)

lemma rowChangesMain_mem:
  "ch \<in> set (rowChangesMain oldRows newRows row) \<longleftrightarrow>
     (\<exists>col < max (length (rowAt oldRows row)) (length (rowAt newRows row)).
        ch \<in> set (cellChangeMain row (rowAt oldRows row) (rowAt newRows row) col))"
  by (auto simp: rowChangesMain_def Let_def)

lemma findChangesMain_mem:
  "ch \<in> set (findChangesMain oldSheet newSheet) \<longleftrightarrow>
     (\<exists>row < max (length (sheetRows oldSheet)) (length (sheetRows newSheet)).
        ch \<in> set (rowChangesMain (sheetRows oldSheet) (sheetRows newSheet) row))"
  by (auto simp: findChangesMain_def Let_def)

lemma differ_in_range_main:
  assumes "orEmptyFalsy (cellAt (rowAt oldRows row) col) \<noteq> orEmptyFalsy (cellAt (rowAt newRows row) col)"
  shows "row < max (length oldRows) (length newRows)"
    and "col < max (length (rowAt oldRows row)) (length (rowAt newRows row))"
proof -
  show "col < max (length (rowAt oldRows row)) (length (rowAt newRows row))"
    using assms by (auto simp: cellAt_def split: if_splits)
  then show "row < max (length oldRows) (length newRows)"
    by (auto simp: rowAt_def split: if_splits)
qed

lemma emitsAt_main_iff:
  "emitsAt (findChangesMain oldSheet newSheet) row col \<longleftrightarrow>
     orEmptyFalsy (valueAt oldSheet row col) \<noteq> orEmptyFalsy (valueAt newSheet row col)"
proof
  assume "emitsAt (findChangesMain oldSheet newSheet) row col"
  then obtain ch where "ch \<in> set (findChangesMain oldSheet newSheet)"
    and "r ch = row + 1" and "c ch = col + 1"
    by (auto simp: emitsAt_def list_ex_iff)
  then show "orEmptyFalsy (valueAt oldSheet row col) \<noteq> orEmptyFalsy (valueAt newSheet row col)"
    by (auto simp: findChangesMain_mem rowChangesMain_mem cellChangeMain_mem valueAt_def)
next
  assume d: "orEmptyFalsy (valueAt oldSheet row col) \<noteq> orEmptyFalsy (valueAt newSheet row col)"
  let ?p = "rowAt (sheetRows oldSheet) row" and ?q = "rowAt (sheetRows newSheet) row"
  let ?ch = "\<lparr>r = row + 1, c = col + 1, oldVal = orEmptyFalsy (cellAt ?p col),
              newVal = orEmptyFalsy (cellAt ?q col)\<rparr>"
  from d have d': "orEmptyFalsy (cellAt ?p col) \<noteq> orEmptyFalsy (cellAt ?q col)"
    by (simp add: valueAt_def)
  have "?ch \<in> set (findChangesMain oldSheet newSheet)"
    using d' differ_in_range_main [OF d']
    by (auto simp: findChangesMain_mem rowChangesMain_mem cellChangeMain_mem)
  then show "emitsAt (findChangesMain oldSheet newSheet) row col"
    unfolding emitsAt_def list_ex_iff by (intro bexI [of _ ?ch]) simp_all
qed

lemma findChangesMain_same: "findChangesMain sh sh = []"
proof (cases "findChangesMain sh sh")
  case Nil
  then show ?thesis .
next
  case (Cons ch chs)
  then have "ch \<in> set (findChangesMain sh sh)" by simp
  then have False
    by (auto simp: findChangesMain_mem rowChangesMain_mem cellChangeMain_mem)
  then show ?thesis ..
qed

text \<open>Where no number is involved, the comparison is the comparison of the texts.\<close>

lemma orEmpty_differ_text:
  assumes "\<And>n. v \<noteq> Num n" and "\<And>n. v' \<noteq> Num n"
  shows "orEmpty v \<noteq> orEmpty v' \<longleftrightarrow> cellText v \<noteq> cellText v'"
  using assms by (cases v; cases v') (auto simp: orEmpty_def cellText_def)

text \<open>
  C1, as the code has it. \<open>findChanges\<close> has a record for the position \<open>(row, col)\<close> if and
  only if the two values there, a missing row, a missing cell and \<open>null\<close> being read as the
  empty string, are different values: the comparison is \<open>!==\<close> on the values themselves,
  not on their texts. The diff of a sheet with itself is empty. The same holds for the
  older \<open>findChanges\<close> of \<open>main.js\<close>, which reads every falsy value as the empty string.
\<close>

theorem findChanges_detects:
  "(emitsAt (findChanges oldSheet newSheet) row col \<longleftrightarrow>
      orEmpty (valueAt oldSheet row col) \<noteq> orEmpty (valueAt newSheet row col))
   \<and> findChanges oldSheet oldSheet = []
   \<and> (emitsAt (findChangesMain oldSheet newSheet) row col \<longleftrightarrow>
      orEmptyFalsy (valueAt oldSheet row col) \<noteq> orEmptyFalsy (valueAt newSheet row col))
   \<and> findChangesMain oldSheet oldSheet = []"
  by (simp add: emitsAt_iff findChanges_same emitsAt_main_iff findChangesMain_same)

text \<open>
  The claim as stated fails where a number meets the string of its digits: the texts
  are equal, and a change is reported.
\<close>

theorem findChanges_number_text:
  "cellText (valueAt (Some [[Num 5]]) 0 0) = cellText (valueAt (Some [[Str (asc ''5'')]]) 0 0)
   \<and> emitsAt (findChanges (Some [[Num 5]]) (Some [[Str (asc ''5'')]])) 0 0
   \<and> findChanges (Some [[Num 5]]) (Some [[Str (asc ''5'')]])
       = [\<lparr>r = 1, c = 1, oldVal = Num 5, newVal = Str (asc ''5'')\<rparr>]
   \<and> findChangesMain (Some [[Num 5]]) (Some [[Str (asc ''5'')]])
       = [\<lparr>r = 1, c = 1, oldVal = Num 5, newVal = Str (asc ''5'')\<rparr>]"
  by (simp add: findChanges_def rowChanges_def cellChange_def findChangesMain_def
      rowChangesMain_def cellChangeMain_def sheetRows_def rowAt_def cellAt_def orEmpty_def
      orEmptyFalsy_def valueAt_def cellText_def emitsAt_def showInt_def showNat_digit asc_def)

text \<open>
  The older \<open>findChanges\<close> of \<open>main.js\<close> reads the number 0 as the empty string as well.
\<close>

lemma orEmptyFalsy_zero: "orEmptyFalsy (Num 0) = Str [] \<and> orEmpty (Num 0) = Num 0"
  by (simp add: orEmptyFalsy_def orEmpty_def)

section \<open>The change message of header-only changes\<close>

lemma forEachChange_header_only:
  "filter (\<lambda>ch. 3 \<le> r ch) changes = [] \<Longrightarrow> forEachChange E sheet changes grouped = Inr grouped"
  by (induction changes) (auto split: if_splits)

lemma objectKeys_Nil: "objectKeys [] = []"
  by (simp add: objectKeys_def)

lemma trim_banner: "trim banner = take 43 banner"
  by (simp add: trim_def banner_def isSpace_def)

text \<open>
  C6, as the code has it. When no change is left after the changes of the header region
  (rows 1 and 2) are dropped, the composer does not return an empty text: it returns the
  banner line alone, without its two line feeds and without any date block.
\<close>

theorem buildChangeMessage_header_only:
  "filter (\<lambda>ch. 3 \<le> r ch) changes = []
     \<Longrightarrow> buildChangeMessage E changes sheet = Inr (take 43 banner) \<and> take 43 banner \<noteq> []"
  by (simp add: buildChangeMessage_def forEachChange_header_only objectKeys_Nil trim_banner)
    (simp add: banner_def)

theorem buildChangeMessage_header_only_witness:
  "filter (\<lambda>ch. 3 \<le> r ch) [\<lparr>r = 2, c = 3, oldVal = Str (asc ''a''), newVal = Str (asc ''b'')\<rparr>] = []
     \<and> buildChangeMessage sampleEnv
           [\<lparr>r = 2, c = 3, oldVal = Str (asc ''a''), newVal = Str (asc ''b'')\<rparr>] sampleSheet
         = Inr (take 43 banner)"
  using buildChangeMessage_header_only
    [of "[\<lparr>r = 2, c = 3, oldVal = Str (asc ''a''), newVal = Str (asc ''b'')\<rparr>]"
        sampleEnv sampleSheet]
  by simp

text \<open>
  The claim as stated fails: for a single change in the header row the composer returns
  a text that is not empty.
\<close>

theorem buildChangeMessage_not_empty:
  "filter (\<lambda>ch. 3 \<le> r ch) [\<lparr>r = 2, c = 3, oldVal = Str (asc ''a''), newVal = Str (asc ''b'')\<rparr>] = []
   \<and> buildChangeMessage sampleEnv
         [\<lparr>r = 2, c = 3, oldVal = Str (asc ''a''), newVal = Str (asc ''b'')\<rparr>] sampleSheet
       \<noteq> Inr []"
  by (simp add: buildChangeMessage_def objectKeys_Nil trim_banner) (simp add: banner_def)

section \<open>The grouping of the change message\<close>

lemma set_firstSeen: "set (firstSeen xs) = set xs"
  by (induction xs) auto

lemma distinct_firstSeen: "distinct (firstSeen xs)"
  by (induction xs) (auto simp: set_firstSeen)

lemma firstSeen_filter: "filter P (firstSeen xs) = firstSeen (filter P xs)"
proof (induction xs)
  case Nil
  show ?case by simp
next
  case (Cons x xs)
  show ?case
  proof (cases "P x")
    case True
    have "filter P (filter (\<lambda>y. y \<noteq> x) (firstSeen xs)) = filter (\<lambda>y. y \<noteq> x) (filter P (firstSeen xs))"
      by (simp add: conj_commute)
    with True Cons.IH show ?thesis by simp
  next
    case False
    have "filter (\<lambda>y. y \<noteq> x) (firstSeen (filter P xs)) = firstSeen (filter P xs)"
      using False by (intro filter_True) (auto simp: set_firstSeen)
    moreover have "filter P (filter (\<lambda>y. y \<noteq> x) (firstSeen xs))
        = filter (\<lambda>y. y \<noteq> x) (filter P (firstSeen xs))"
      by (simp add: conj_commute)
    ultimately show ?thesis
      using False Cons.IH by simp
  qed
qed

lemma push_keys:
  "map fst (push date line grouped)
     = (if date \<in> set (map fst grouped) then map fst grouped else map fst grouped @ [date])"
proof (cases "map_of grouped date")
  case None
  then have "date \<notin> set (map fst grouped)"
    by (simp add: map_of_eq_None_iff)
  then show ?thesis by (simp add: push_def None)
next
  case (Some ls)
  then have "date \<in> set (map fst grouped)"
    by (metis map_of_eq_None_iff option.distinct(1) set_map)
  moreover have "map fst (map (\<lambda>(k, v). if k = date then (k, v @ [line]) else (k, v)) grouped)
      = map fst grouped"
    by (induction grouped) auto
  ultimately show ?thesis using Some by (simp add: push_def)
qed

lemma map_of_update_lines:
  "map_of (map (\<lambda>(k, v). if k = date then (k, v @ [line]) else (k, v)) grouped) k
     = (if k = date then map_option (\<lambda>v. v @ [line]) (map_of grouped k) else map_of grouped k)"
  by (induction grouped) auto

lemma push_map_of:
  "map_of (push date line grouped) k
     = (if k = date
        then Some ((case map_of grouped date of None \<Rightarrow> [] | Some v \<Rightarrow> v) @ [line])
        else map_of grouped k)"
proof (cases "map_of grouped date")
  case None
  then show ?thesis by (simp add: push_def map_add_def split: option.splits)
next
  case (Some ls)
  then show ?thesis by (simp add: push_def map_of_update_lines)
qed

lemma linesOf_simps:
  "linesOf [] k = []"
  "linesOf ((date, line) # rest) k = (if date = k then line # linesOf rest k else linesOf rest k)"
  by (simp_all add: linesOf_def)

lemma linesOf_absent: "k \<notin> fst ` set dated \<Longrightarrow> linesOf dated k = []"
  by (induction dated) (auto simp: linesOf_def)

lemma pushAll_map_of:
  "map_of (pushAll dated grouped) k
     = (if k \<in> fst ` set dated
        then Some ((case map_of grouped k of None \<Rightarrow> [] | Some v \<Rightarrow> v) @ linesOf dated k)
        else map_of grouped k)"
proof (induction dated arbitrary: grouped)
  case Nil
  show ?case by simp
next
  case (Cons p dated)
  obtain date line where p: "p = (date, line)" by (cases p)
  show ?case
  proof (cases "k \<in> fst ` set dated")
    case True
    then show ?thesis
      unfolding p by (simp add: Cons.IH push_map_of linesOf_simps)
  next
    case False
    then have "linesOf dated k = []"
      by (rule linesOf_absent)
    with False show ?thesis
      unfolding p by (auto simp: Cons.IH push_map_of linesOf_simps)
  qed
qed

lemma pushAll_keys:
  "map fst (pushAll dated grouped)
     = map fst grouped
       @ firstSeen (filter (\<lambda>d. d \<notin> set (map fst grouped)) (map fst dated))"
proof (induction dated arbitrary: grouped)
  case Nil
  show ?case by simp
next
  case (Cons p dated)
  obtain date line where p: "p = (date, line)" by (cases p)
  show ?case
  proof (cases "date \<in> set (map fst grouped)")
    case True
    then show ?thesis
      unfolding p by (simp add: Cons.IH push_keys)
  next
    case False
    have "filter (\<lambda>d. d \<noteq> date) (firstSeen (filter (\<lambda>d. d \<notin> set (map fst grouped)) (map fst dated)))
        = firstSeen (filter (\<lambda>d. d \<notin> set (map fst grouped) \<and> d \<noteq> date) (map fst dated))"
      by (simp add: firstSeen_filter conj_commute)
    with False show ?thesis
      unfolding p by (simp add: Cons.IH push_keys conj_commute)
  qed
qed

lemma forEachChange_kept:
  "forEachChange E sheet changes grouped = forEachChange E sheet (keptChanges changes) grouped"
proof (induction changes arbitrary: grouped)
  case Nil
  show ?case by (simp add: keptChanges_def)
next
  case (Cons ch changes)
  show ?case
  proof (cases "r ch < 3")
    case True
    then show ?thesis
      using Cons.IH by (simp add: keptChanges_def)
  next
    case False
    then have k: "keptChanges (ch # changes) = ch # keptChanges changes"
      by (simp add: keptChanges_def)
    show ?thesis
      unfolding k using False Cons.IH by (simp split: sum.splits)
  qed
qed

lemma pushLine_push:
  "date \<notin> set inheritedNames \<Longrightarrow> pushLine date line grouped = Inr (push date line grouped)"
  by (simp add: pushLine_def push_def split: option.splits)

lemma forEachChange_pushAll:
  assumes "list_all (\<lambda>ch. 3 \<le> r ch \<and> plainDate sheet ch) chs"
  shows "forEachChange E sheet chs grouped
           = Inr (pushAll (map (\<lambda>ch. (dateText sheet ch, changeLine E sheet ch)) chs) grouped)"
  using assms
proof (induction chs arbitrary: grouped)
  case Nil
  show ?case by simp
next
  case (Cons ch chs)
  from Cons.prems have r: "\<not> r ch < 3" and p: "plainDate sheet ch"
    and rest: "list_all (\<lambda>ch. 3 \<le> r ch \<and> plainDate sheet ch) chs"
    by simp_all
  from p obtain d where d: "changeDate sheet ch = Inr d" "d \<notin> set inheritedNames"
    by (auto simp: plainDate_def split: sum.splits)
  then have t: "dateText sheet ch = d"
    by (simp add: dateText_def)
  show ?case
    using r d by (simp add: t pushLine_push Cons.IH [OF rest])
qed

lemma linesOf_map:
  "linesOf (map (\<lambda>ch. (f ch, h ch)) xs) k = map h (filter (\<lambda>ch. f ch = k) xs)"
  by (induction xs) (simp_all add: linesOf_simps)

lemma objectKeys_plain:
  "list_all (\<lambda>k. \<not> isArrayIndex k) (map fst obj) \<Longrightarrow> objectKeys obj = map fst obj"
proof -
  assume a: "list_all (\<lambda>k. \<not> isArrayIndex k) (map fst obj)"
  then have "filter isArrayIndex (map fst obj) = []"
    by (simp add: filter_empty_conv list_all_iff)
  moreover have "filter (\<lambda>k. \<not> isArrayIndex k) (map fst obj) = map fst obj"
    using a by (intro filter_True) (simp add: list_all_iff)
  ultimately show ?thesis
    by (simp add: objectKeys_def)
qed

text \<open>
  C8, as the code has it. The composer drops the changes of the rows 1 and 2: it
  returns for a list of changes what it returns for the changes kept. When every kept
  change has a plain date (one that resolves without an exception and is neither an
  array index nor the name of an inherited property), the message is the banner
  followed by one block for each date, the dates in the order in which they are first
  seen, and the block of a date holding the lines of the changes of that date in the
  order of the changes.
\<close>

theorem buildChangeMessage_grouping:
  "buildChangeMessage E changes sheet = buildChangeMessage E (keptChanges changes) sheet
   \<and> (list_all (plainDate sheet) (keptChanges changes)
        \<longrightarrow> buildChangeMessage E changes sheet = Inr (composeSpec E changes sheet))"
proof (intro conjI impI)
  show "buildChangeMessage E changes sheet = buildChangeMessage E (keptChanges changes) sheet"
    unfolding buildChangeMessage_def
    using forEachChange_kept [of E sheet changes "[]"]
      forEachChange_kept [of E sheet "keptChanges changes" "[]"] by simp
next
  assume a: "list_all (plainDate sheet) (keptChanges changes)"
  let ?kept = "keptChanges changes"
  let ?dated = "map (\<lambda>ch. (dateText sheet ch, changeLine E sheet ch)) ?kept"
  let ?G = "pushAll ?dated []"
  have "list_all (\<lambda>ch. 3 \<le> r ch \<and> plainDate sheet ch) ?kept"
    using a by (simp add: keptChanges_def list_all_iff)
  then have f: "forEachChange E sheet changes [] = Inr ?G"
    using forEachChange_kept [of E sheet changes "[]"] forEachChange_pushAll by simp
  have keys: "map fst ?G = firstSeen (map (dateText sheet) ?kept)"
    by (simp add: pushAll_keys comp_def)
  have "\<not> isArrayIndex (dateText sheet ch)" if "ch \<in> set ?kept" for ch
    using a that by (auto simp: list_all_iff plainDate_def dateText_def split: sum.splits)
  then have "list_all (\<lambda>k. \<not> isArrayIndex k) (map fst ?G)"
    unfolding keys by (auto simp: list_all_iff set_firstSeen)
  then have ok: "objectKeys ?G = firstSeen (map (dateText sheet) ?kept)"
    using keys by (simp add: objectKeys_plain)
  have block: "dateBlock ?G k = specBlock E sheet ?kept k"
    if "k \<in> set (firstSeen (map (dateText sheet) ?kept))" for k
  proof -
    from that have "k \<in> fst ` set ?dated"
      by (auto simp: set_firstSeen image_iff)
    then have "map_of ?G k = Some (linesOf ?dated k)"
      by (simp add: pushAll_map_of)
    then show ?thesis
      by (simp add: dateBlock_def specBlock_def linesOf_map)
  qed
  have m: "map (dateBlock ?G) (firstSeen (map (dateText sheet) ?kept))
      = map (specBlock E sheet ?kept) (firstSeen (map (dateText sheet) ?kept))"
    by (rule map_cong [OF refl]) (rule block)
  show "buildChangeMessage E changes sheet = Inr (composeSpec E changes sheet)"
    by (simp add: buildChangeMessage_def f ok m composeSpec_def)
qed

lemmas composer_defs =
  changeDate_def changeLine_def pushLine_def objectKeys_def isArrayIndex_def digitsValue_def
  dateBlock_def rowAt_def cellAt_def inheritedNames_def userMap_def firstNameFrom_def
  prettyVal_def stripQuotes_def isQuote_def orEmpty_def trim_def isSpace_def sampleEnv_def
  upperUnit_def lowerUnit_def dayToken_def nightToken_def offToken_def banner_def calendar_def
  unknownPerson_def unknownDate_def startsWith_def sampleSheet_def

lemma sampleChanges_kept:
  "keptChanges sampleChanges =
     [\<lparr>r = 3, c = 3, oldVal = Str nightToken, newVal = Str dayToken\<rparr>,
      \<lparr>r = 4, c = 4, oldVal = Str dayToken, newVal = Str offToken\<rparr>,
      \<lparr>r = 6, c = 3, oldVal = Str [], newVal = Str offToken\<rparr>]"
  by (simp add: keptChanges_def sampleChanges_def)

lemma sampleChanges_dates:
  "map (changeDate sampleSheet) (keptChanges sampleChanges)
     = [Inr (asc ''2024-09-05''), Inr (asc ''2024-09-06''), Inr (asc ''2024-09-05'')]"
  unfolding sampleChanges_kept
  by (simp add: changeDate_def rowAt_def cellAt_def sampleSheet_def normalizeDate_45541 asc_def
      del: normalizeDate.simps(4))

theorem buildChangeMessage_grouping_witness:
  "list_all (plainDate sampleSheet) (keptChanges sampleChanges)
   \<and> buildChangeMessage sampleEnv sampleChanges sampleSheet =
       Inr (take 43 banner @ [10, 10]
            @ calendar @ asc ''2024-09-05:'' @ [10]
            @ asc ''Ivan ( '' @ [1053, 1086, 1095, 1100, 32, 8594, 32, 1044, 1077, 1085, 1100] @ asc '' )''
            @ [10]
            @ asc ''Ivan ( '' @ [8212, 32, 8594, 32, 1042, 1099, 1093] @ asc '' )'' @ [10, 10]
            @ calendar @ asc ''2024-09-06:'' @ [10]
            @ asc ''Petr ( '' @ [1044, 1077, 1085, 1100, 32, 8594, 32, 1042, 1099, 1093] @ asc '' )'')"
proof -
  have p: "list_all (plainDate sampleSheet) (keptChanges sampleChanges)"
    using sampleChanges_dates unfolding sampleChanges_kept
    by (simp add: plainDate_def isArrayIndex_def inheritedNames_def asc_def)
  have d: "map (dateText sampleSheet) (keptChanges sampleChanges)
      = [asc ''2024-09-05'', asc ''2024-09-06'', asc ''2024-09-05'']"
    using sampleChanges_dates unfolding sampleChanges_kept
    by (simp add: dateText_def)
  have t: "dateText sampleSheet \<lparr>r = 3, c = 3, oldVal = Str nightToken, newVal = Str dayToken\<rparr>
        = asc ''2024-09-05''"
      "dateText sampleSheet \<lparr>r = 4, c = 4, oldVal = Str dayToken, newVal = Str offToken\<rparr>
        = asc ''2024-09-06''"
      "dateText sampleSheet \<lparr>r = 6, c = 3, oldVal = Str [], newVal = Str offToken\<rparr>
        = asc ''2024-09-05''"
    using d unfolding sampleChanges_kept by simp_all
  have c: "composeSpec sampleEnv sampleChanges sampleSheet =
       take 43 banner @ [10, 10]
            @ calendar @ asc ''2024-09-05:'' @ [10]
            @ asc ''Ivan ( '' @ [1053, 1086, 1095, 1100, 32, 8594, 32, 1044, 1077, 1085, 1100] @ asc '' )''
            @ [10]
            @ asc ''Ivan ( '' @ [8212, 32, 8594, 32, 1042, 1099, 1093] @ asc '' )'' @ [10, 10]
            @ calendar @ asc ''2024-09-06:'' @ [10]
            @ asc ''Petr ( '' @ [1044, 1077, 1085, 1100, 32, 8594, 32, 1042, 1099, 1093] @ asc '' )''"
    unfolding composeSpec_def d unfolding sampleChanges_kept
    by (simp add: specBlock_def t)
      (simp add: composer_defs asc_def Let_def)
  show ?thesis
    using p buildChangeMessage_grouping [of sampleEnv sampleChanges sampleSheet,
        THEN conjunct2, THEN mp, OF p, unfolded c]
    by simp
qed

text \<open>
  The claim as stated fails where dates are array indices: \<open>Object.keys\<close> lists them
  first and in numeric order. For a change under the day number 7 followed by a change
  under the day number 3, the block of 3 comes before the block of 7.
\<close>

theorem buildChangeMessage_day_numbers:
  "firstSeen (map (dateText sampleSheet) (keptChanges dayNumberChanges)) = [asc ''7'', asc ''3'']
   \<and> buildChangeMessage sampleEnv dayNumberChanges sampleSheet =
       Inr (take 43 banner @ [10, 10]
            @ calendar @ asc ''3:'' @ [10] @ asc ''Petr ( '' @ [8212, 32, 8594, 32] @ asc ''Z )''
            @ [10, 10]
            @ calendar @ asc ''7:'' @ [10] @ asc ''Ivan ( '' @ [8212, 32, 8594, 32] @ asc ''X )'')
   \<and> buildChangeMessage sampleEnv dayNumberChanges sampleSheet
       \<noteq> Inr (composeSpec sampleEnv dayNumberChanges sampleSheet)"
proof -
  have k: "keptChanges dayNumberChanges = dayNumberChanges"
    by (simp add: keptChanges_def dayNumberChanges_def)
  have d: "map (dateText sampleSheet) dayNumberChanges = [asc ''7'', asc ''3'']"
    by (simp add: dayNumberChanges_def dateText_def changeDate_def rowAt_def cellAt_def
        sampleSheet_def asc_def)
  have t: "dateText sampleSheet \<lparr>r = 3, c = 5, oldVal = Str [], newVal = Str (asc ''x'')\<rparr> = asc ''7''"
    "dateText sampleSheet \<lparr>r = 4, c = 6, oldVal = Str [], newVal = Str (asc ''z'')\<rparr> = asc ''3''"
    using d by (simp_all add: dayNumberChanges_def)
  have b: "buildChangeMessage sampleEnv dayNumberChanges sampleSheet =
       Inr (take 43 banner @ [10, 10]
            @ calendar @ asc ''3:'' @ [10] @ asc ''Petr ( '' @ [8212, 32, 8594, 32] @ asc ''Z )''
            @ [10, 10]
            @ calendar @ asc ''7:'' @ [10] @ asc ''Ivan ( '' @ [8212, 32, 8594, 32] @ asc ''X )'')"
    by (simp add: buildChangeMessage_def dayNumberChanges_def composer_defs asc_def Let_def)
  have s: "composeSpec sampleEnv dayNumberChanges sampleSheet =
       take 43 banner @ [10, 10]
            @ calendar @ asc ''7:'' @ [10] @ asc ''Ivan ( '' @ [8212, 32, 8594, 32] @ asc ''X )''
            @ [10, 10]
            @ calendar @ asc ''3:'' @ [10] @ asc ''Petr ( '' @ [8212, 32, 8594, 32] @ asc ''Z )''"
    unfolding composeSpec_def k d unfolding dayNumberChanges_def
    by (simp add: specBlock_def t) (simp add: composer_defs asc_def Let_def)
  show ?thesis
    unfolding k d b s by (simp add: banner_def calendar_def asc_def)
qed

text \<open>
  A date that is the name of an inherited property makes the composer throw: under the
  header \<open>valueOf\<close> the dictionary answers with the inherited function, which has no
  \<open>push\<close>.
\<close>

lemma buildChangeMessage_inherited:
  "buildChangeMessage E [\<lparr>r = 3, c = 1, oldVal = Str [], newVal = Str (asc ''x'')\<rparr>]
     [[], [Str (asc ''valueOf'')], [Str (asc ''x'')]]
   = Inl (TypeError (asc ''(intermediate value).push is not a function''))"
  by (simp add: buildChangeMessage_def changeDate_def pushLine_def rowAt_def cellAt_def
      inheritedNames_def asc_def)

section \<open>The daily digest\<close>





lemma sendDailyDuty_sends_iff:
  assumes "2 \<le> length (w_sheet w)" and "firstMatch (dateIs target) (w_sheet w ! 1) k"
  shows "sendDailyDuty E w target =
           (case foldl (dutyStep E k) ([], []) (drop 2 (w_sheet w)) of
              (day, night) \<Rightarrow>
                if day = [] \<and> night = [] then Inr w
                else Inr (sendMessage (CHAT_ID E) (digestText target day night) w))"
  using assms findIndexE_Some_iff [of "dateIs target" "w_sheet w ! 1" k]
  by (simp add: sendDailyDuty_def)


lemma sample_header:
  "w_sheet sampleWorld ! 1 =
     [Str [], Str (asc ''Name''), Str (asc ''2024-09-05T10:00:00''), Num 45541,
      Str (asc ''7''), Str (asc ''3'')]"
  "2 \<le> length (w_sheet sampleWorld)"
  by (simp_all add: sampleWorld_def sampleSheet_def)

lemma sample_rows:
  "drop 2 (w_sheet sampleWorld) =
     [[Str (asc ''1''), Str (asc ''Ivanov Ivan Ivanovich''), Str dayToken, Str (asc ''-''),
       Str (asc ''x'')],
      [Str (asc ''2''), Str (asc ''Petrov Petr Petrovich''), Str nightToken, Str offToken],
      [],
      [Str (asc ''3''), Str (asc ''Ivanov Ivan Ivanovich''), Str offToken,
       Str (asc '' '' @ [1042, 1099, 1093] @ asc '' '')]]"
  by (simp add: sampleWorld_def sampleSheet_def)


text \<open>
  The digest does send when a list is not empty: the sample sheet has a day duty and a
  night duty on 5 September.
\<close>

lemma sendDailyDuty_sample:
  "sendDailyDuty sampleEnv sampleWorld (asc ''2024-09-05'') =
     Inr (sendMessage (Str (asc ''-1001''))
            (dutyBanner @ asc ''2024-09-05:'' @ [10, 10] @ dayHeader @ asc ''Ivan'' @ [10, 10]
               @ nightHeader @ asc ''Petr'') sampleWorld)"
proof -
  have m: "firstMatch (dateIs (asc ''2024-09-05'')) (w_sheet sampleWorld ! 1) 2"
    unfolding sample_header(1)
    by (simp add: firstMatch_def dateIs_def asc_def)
  have f: "foldl (dutyStep sampleEnv 2) ([], []) (drop 2 (w_sheet sampleWorld))
             = ([asc ''Ivan''], [asc ''Petr''])"
    unfolding sample_rows
    by (simp add: dutyStep_def cellAt_def sampleEnv_def trim_def isSpace_def lowerUnit_def
        offToken_def dayToken_def nightToken_def includesStr_def startsWith_def
        firstNameFrom_def digestTag_def userMap_def inheritedNames_def asc_def Let_def)
  show ?thesis
    unfolding sendDailyDuty_sends_iff [OF sample_header(2) m, of sampleEnv] f
    by (simp add: digestText_def sampleEnv_def asc_def)
qed

section \<open>Sheets without a header row\<close>

lemma sendDailyDuty_short_sheet:
  "length (w_sheet w) < 2 \<Longrightarrow> sendDailyDuty E w target = Inl undefinedFindIndex"
  by (simp add: sendDailyDuty_def)

lemma updateGoogleSheet_short_sheet:
  "length (w_sheet w) < 2 \<Longrightarrow> updateGoogleSheet E w dateStr personName newValue = Inl undefinedFindIndex"
  by (simp add: updateGoogleSheet_def)

text \<open>
  With a header row, rows of any lengths do not make the digest throw, as long as no
  header cell is a number beyond the range of dates.
\<close>

lemma dateIs_total:
  "(\<And>n. v = Num n \<Longrightarrow> - 8640000000000000 \<le> base + n * 86400000
        \<and> base + n * 86400000 \<le> 8640000000000000) \<Longrightarrow> \<exists>b. dateIs target v = Inr b"
  by (cases v) (auto simp: dateIs_def toISOString_def)

lemma sendDailyDuty_total:
  assumes "2 \<le> length (w_sheet w)"
    and "list_all (\<lambda>v. \<exists>b. dateIs target v = Inr b) (w_sheet w ! 1)"
  shows "\<exists>w'. sendDailyDuty E w target = Inr w'"
proof -
  obtain k where "findIndexE (dateIs target) (w_sheet w ! 1) = Inr k"
    using findIndexE_total [OF assms(2)] by blast
  then show ?thesis
    using assms(1) by (cases k) (auto simp: sendDailyDuty_def split: prod.splits)
qed

text \<open>
  C4 fails on the code. On a sheet with fewer than two rows, such as the empty sheet that
  \<open>readGoogleSheet\<close> returns for an empty tab, \<open>sheet[1]\<close> is \<open>undefined\<close> and the call
  of \<open>findIndex\<close> on it throws a \<open>TypeError\<close>: the digest ends with that exception, and
  the update command is answered with the text of the exception, not with the answer
  for a date that is not found. \<open>buildChangeMessage\<close> guards the same read with
  \<open>sheet[1] || []\<close>.
\<close>

theorem missing_header_throws:
  "sendDailyDuty sampleEnv (sampleWorld\<lparr>w_sheet := []\<rparr>) (asc ''2024-09-05'')
     = Inl undefinedFindIndex
   \<and> updateGoogleSheet sampleEnv (sampleWorld\<lparr>w_sheet := []\<rparr>) (asc ''2024-09-05'')
       (asc ''Ivanov Ivan Ivanovich'') (asc ''night'') = Inl undefinedFindIndex
   \<and> w_sent (handler sampleEnv (sampleWorld\<lparr>w_sheet := []\<rparr>)
         \<lparr>msg_from = 1001, msg_chat = 77,
          msg_text = Some (asc ''2024-09-05 Ivanov Ivan Ivanovich night'')\<rparr>)
       = [(Num 77, errPrefix @ message undefinedFindIndex)]
   \<and> message undefinedFindIndex \<noteq> dateNotFound"
proof -
  let ?msg = "\<lparr>msg_from = 1001, msg_chat = 77,
          msg_text = Some (asc ''2024-09-05 Ivanov Ivan Ivanovich night'')\<rparr>"
  have "handler sampleEnv (sampleWorld\<lparr>w_sheet := []\<rparr>) ?msg
       = sendMessage (Num 77) (errPrefix @ message undefinedFindIndex)
           (sampleWorld\<lparr>w_sheet := []\<rparr>)"
    by (subst handler_command [where msg = ?msg and E = sampleEnv, OF _ _ sample_command(1)])
      (simp_all add: sample_command updateGoogleSheet_short_sheet sampleEnv_def)
  then show ?thesis
    by (simp add: sendDailyDuty_short_sheet updateGoogleSheet_short_sheet sendMessage_def
        sampleWorld_def undefinedFindIndex_def dateNotFound_def asc_def)
qed

section \<open>The update\<close>

lemma findIndex_firstRow:
  "findIndex (\<lambda>cells. cellAt cells 1 = Str name) sheet = Some i \<longleftrightarrow> firstRow name sheet i"
  by (simp add: findIndex_Some_iff firstRow_def)


lemma updateGoogleSheet_no_date:
  "2 \<le> length (w_sheet w) \<Longrightarrow> noMatch (dateIs dateStr) (w_sheet w ! 1)
     \<Longrightarrow> updateGoogleSheet E w dateStr personName newValue = Inl (Error dateNotFound)"
  using findIndexE_None_iff [of "dateIs dateStr" "w_sheet w ! 1"]
  by (simp add: updateGoogleSheet_def)


lemma updateGoogleSheet_found:
  "2 \<le> length (w_sheet w) \<Longrightarrow> firstMatch (dateIs dateStr) (w_sheet w ! 1) colIndex
     \<Longrightarrow> firstRow personName (w_sheet w) rowIndex
     \<Longrightarrow> updateGoogleSheet E w dateStr personName newValue =
         (case valuesUpdate E (cellRef colIndex rowIndex) newValue (w_sheet w) of
            Inl e \<Rightarrow> Inl e
          | Inr g \<Rightarrow>
              Inr (w\<lparr>w_sheet := g,
                     w_writes := w_writes w @ [(cellRef colIndex rowIndex, newValue)]\<rparr>))"
  using findIndexE_Some_iff [of "dateIs dateStr" "w_sheet w ! 1" colIndex]
    findIndex_firstRow [of personName "w_sheet w" rowIndex]
  by (simp add: updateGoogleSheet_def)

lemma updateGoogleSheet_fails_unchanged:
  "updateGoogleSheet E w dateStr personName newValue = Inl err
     \<Longrightarrow> w_cache (sendMessage chat body w) = w_cache w
       \<and> w_sheet (sendMessage chat body w) = w_sheet w
       \<and> w_writes (sendMessage chat body w) = w_writes w"
  by (simp add: sendMessage_def)

lemma sample_cellRef:
  "cellRef 2 1 = asc ''september!C2''" "cellRef 2 2 = asc ''september!C3''"
  by (simp_all add: cellRef_def SHEET_TAB_def numToCol_def numToColLoop_step numToColLoop_zero
      showNat_digit asc_def)

text \<open>
  C10. The row of the write is the first row, counted from the first row of the sheet,
  whose second cell is the name as a string: when that row is row \<open>rowIndex\<close>, which may
  be the title row (0) or the header row (1), and the service accepts the write, the
  update writes the cell of the matched column in that row, at the address with the row
  number \<open>rowIndex + 1\<close>. Rows after the first one with the name are never written.
\<close>

theorem updateGoogleSheet_first_row:
  assumes "2 \<le> length (w_sheet w)"
    and "firstMatch (dateIs dateStr) (w_sheet w ! 1) colIndex"
    and "firstRow personName (w_sheet w) rowIndex"
    and "valuesUpdate E (cellRef colIndex rowIndex) newValue (w_sheet w) = Inr g"
  shows "updateGoogleSheet E w dateStr personName newValue =
           Inr (w\<lparr>w_sheet := g,
                  w_writes := w_writes w @ [(cellRef colIndex rowIndex, newValue)]\<rparr>)"
  using assms by (simp add: updateGoogleSheet_found)

text \<open>
  On the sample sheet the name \<open>Name\<close> stands in the header row, and the update for it
  writes the cell \<open>C2\<close> of the header row; the name of the first person stands in the
  rows 3 and 6 of the sheet, and the update for it writes row 3.
\<close>

theorem updateGoogleSheet_first_row_witness:
  "firstRow (asc ''Name'') (w_sheet sampleWorld) 1
   \<and> updateGoogleSheet sampleEnv sampleWorld (asc ''2024-09-05'') (asc ''Name'') (asc ''x'')
       = Inr (sampleWorld
               \<lparr>w_sheet := (w_sheet sampleWorld)[1 := (rowAt (w_sheet sampleWorld) 1)[2 := Str (asc ''x'')]],
                w_writes := [(asc ''september!C2'', asc ''x'')]\<rparr>)
   \<and> firstRow (asc ''Ivanov Ivan Ivanovich'') (w_sheet sampleWorld) 2
   \<and> cellAt (w_sheet sampleWorld ! 5) 1 = Str (asc ''Ivanov Ivan Ivanovich'')
   \<and> updateGoogleSheet sampleEnv sampleWorld (asc ''2024-09-05'') (asc ''Ivanov Ivan Ivanovich'')
         (asc ''night'')
       = Inr (sampleWorld
               \<lparr>w_sheet := (w_sheet sampleWorld)[2 := (rowAt (w_sheet sampleWorld) 2)[2 := Str (asc ''night'')]],
                w_writes := [(asc ''september!C3'', asc ''night'')]\<rparr>)"
proof -
  have m: "firstMatch (dateIs (asc ''2024-09-05'')) (w_sheet sampleWorld ! 1) 2"
    unfolding sample_header(1) by (simp add: firstMatch_def dateIs_def asc_def)
  have r1: "firstRow (asc ''Name'') (w_sheet sampleWorld) 1"
    by (simp add: firstRow_def sampleWorld_def sampleSheet_def cellAt_def asc_def)
  have r2: "firstRow (asc ''Ivanov Ivan Ivanovich'') (w_sheet sampleWorld) 2"
    by (simp add: firstRow_def sampleWorld_def sampleSheet_def cellAt_def asc_def)
  have r5: "cellAt (w_sheet sampleWorld ! 5) 1 = Str (asc ''Ivanov Ivan Ivanovich'')"
    by (simp add: sampleWorld_def sampleSheet_def cellAt_def)
  have s1: "valuesUpdate sampleEnv (cellRef 2 1) (asc ''x'') (w_sheet sampleWorld)
      = Inr ((w_sheet sampleWorld)[1 := (rowAt (w_sheet sampleWorld) 1)[2 := Str (asc ''x'')]])"
    unfolding sample_cellRef by (simp add: sampleEnv_def sampleService_def asc_def)
  have s2: "valuesUpdate sampleEnv (cellRef 2 2) (asc ''night'') (w_sheet sampleWorld)
      = Inr ((w_sheet sampleWorld)[2 := (rowAt (w_sheet sampleWorld) 2)[2 := Str (asc ''night'')]])"
    unfolding sample_cellRef by (simp add: sampleEnv_def sampleService_def asc_def)
  have w0: "w_writes sampleWorld = []"
    by (simp add: sampleWorld_def)
  show ?thesis
    using r1 r2 r5
      updateGoogleSheet_first_row [OF sample_header(2) m r1 s1, unfolded sample_cellRef w0]
      updateGoogleSheet_first_row [OF sample_header(2) m r2 s2, unfolded sample_cellRef w0]
    by simp
qed

section \<open>The update command\<close>











end
